theory Spec2Isabelle
  imports Main "HOL-Library.Word" "HOL-Library.List_Lexorder"
begin

section \<open>Strings and values of the script\<close>

text \<open>
  The program is \<^verbatim>\<open>src/web/app.js\<close>, the script of the diagnostic page. A JavaScript
  string is a sequence of UTF-16 code units; string literals of the script that are pure
  ASCII are written through \<open>ascii\<close>, other characters by their code unit.
\<close>

type_synonym unit16 = "16 word"
type_synonym jstring = "unit16 list"

definition ascii :: "string \<Rightarrow> jstring" where
  "ascii s = map of_char s"

text \<open>Decimal text of a natural number, as template literals print a count or an index.\<close>

fun decimal :: "nat \<Rightarrow> jstring" where
  "decimal n =
     (if n < 10 then [of_nat (48 + n)]
      else decimal (n div 10) @ [of_nat (48 + n mod 10)])"

declare decimal.simps [simp del]

text \<open>\<^verbatim>\<open>Array.prototype.join\<close> on an array of strings.\<close>

fun joinWith :: "jstring \<Rightarrow> jstring list \<Rightarrow> jstring" where
  "joinWith sep [] = []"
| "joinWith sep [x] = x"
| "joinWith sep (x # y # ys) = x @ sep @ joinWith sep (y # ys)"

text \<open>
  A value the script handles. Numbers are kept as the text \<^verbatim>\<open>String(n)\<close> gives (the
  script never computes with a record's number, it only prints it and tests it for
  truth); a function value is kept as its source text; \<open>JDate\<close> is a valid
  \<^verbatim>\<open>Date\<close>, kept as the text its \<^verbatim>\<open>toISOString()\<close> returns. \<open>JObj\<close> lists the own
  properties of a plain object in property order, each name once.
\<close>

datatype jsval =
    JUndefined
  | JNull
  | JBool bool
  | JNum jstring
  | JStr jstring
  | JArr "jsval list"
  | JObj "(jstring \<times> jsval) list"
  | JDate jstring
  | JFun jstring

text \<open>
  What the script takes from the JavaScript engine and the browser, none of it code of
  the repository: \<^verbatim>\<open>JSON.parse\<close> (\<open>Inl\<close> is the message of the \<^verbatim>\<open>SyntaxError\<close> it
  throws), \<^verbatim>\<open>JSON.stringify\<close> with one argument (\<open>None\<close> when it throws),
  \<^verbatim>\<open>String(v)\<close> on an object, the property a value inherits from its prototype chain
  (\<open>JUndefined\<close> when there is none), the text of the wall clock at its n-th reading
  (\<^verbatim>\<open>new Date().toLocaleTimeString('pt-BR', ...)\<close>), the \<^verbatim>\<open>stack\<close> text the engine gives an
  error of a given name and message (empty when it gives none), and the message of the
  \<^verbatim>\<open>TypeError\<close> for reading a named property of \<^verbatim>\<open>null\<close>.
\<close>

record engine =
  json_parse :: "jstring \<Rightarrow> jstring + jsval"
  json_stringify :: "jsval \<Rightarrow> jstring option"
  object_text :: "jsval \<Rightarrow> jstring"
  inherited :: "jsval \<Rightarrow> jstring \<Rightarrow> jsval"
  time_text :: "nat \<Rightarrow> jstring"
  stack_text :: "jstring \<Rightarrow> jstring \<Rightarrow> jstring"
  null_read_text :: "jstring \<Rightarrow> jstring"

text \<open>
  The host page is not part of the script. These are the elements that the script looks
  up and tests for presence before it uses them, as far as this model goes: the log pane,
  the metrics card with its list, the table card with its table and its empty-state
  line, the button and the status line of the self-test. An element the script uses
  without such a test (the \<^verbatim>\<open>thead\<close> and \<^verbatim>\<open>tbody\<close> of the table, the three sample
  panes) is taken to be on the page whenever its card is.
\<close>

record page =
  has_logOutput :: bool
  has_statsCard :: bool
  has_dataTable :: bool
  has_btnTestRun :: bool
  has_testStatus :: bool

section \<open>The state of the script\<close>

datatype dataset_key = Contacts | Chats | Messages

text \<open>\<^verbatim>\<open>DATASETS\<close>, in its declared order.\<close>

definition DATASETS :: "dataset_key list" where
  "DATASETS = [Contacts, Chats, Messages]"

fun keyName :: "dataset_key \<Rightarrow> jstring" where
  "keyName Contacts = ascii ''contacts''"
| "keyName Chats = ascii ''chats''"
| "keyName Messages = ascii ''messages''"

fun label :: "dataset_key \<Rightarrow> jstring" where
  "label Contacts = ascii ''Contatos''"
| "label Chats = ascii ''Conversas''"
| "label Messages = ascii ''Mensagens''"

text \<open>
  The object \<^verbatim>\<open>state\<close> (the first five fields), the array \<^verbatim>\<open>logLines\<close>, and what the
  script has done to its surroundings: how often it has read the clock, the text of the
  log pane, the table card, the status line of the self-test, the URLs it has requested
  and the alerts it has raised. The active key \<^verbatim>\<open>state.dataset\<close> is only ever assigned
  a key of \<^verbatim>\<open>DATASETS\<close>, so it is a \<open>dataset_key\<close>.
\<close>

record world =
  summary :: jsval
  contacts :: "jsval list"
  chats :: "jsval list"
  messages :: "jsval list"
  dataset :: dataset_key
  logLines :: "jstring list"
  clockReads :: nat
  logOutput :: jstring
  cardHidden :: bool
  emptyStateHidden :: bool
  emptyStateText :: jstring
  tableHidden :: bool
  theadHtml :: jstring
  tbodyHtml :: jstring
  testStatus :: "jstring \<times> jstring"
  requests :: "jstring list"
  alerts :: "jstring list"

text \<open>The object \<^verbatim>\<open>state\<close> alone: the Application State of the specification.\<close>

definition appState ::
  "world \<Rightarrow> jsval \<times> jsval list \<times> jsval list \<times> jsval list \<times> dataset_key" where
  "appState w = (summary w, contacts w, chats w, messages w, dataset w)"

text \<open>
  The state as the script creates it, before \<^verbatim>\<open>init\<close> runs. What the page shows then is
  set by its markup; the table card is taken to be hidden and empty, and the status line
  to be empty.
\<close>

definition initial_world :: world where
  "initial_world =
     \<lparr> summary = JNull, contacts = [], chats = [], messages = [], dataset = Contacts,
       logLines = [], clockReads = 0, logOutput = [],
       cardHidden = True, emptyStateHidden = False, emptyStateText = [],
       tableHidden = True, theadHtml = [], tbodyHtml = [],
       testStatus = ([], []), requests = [], alerts = [] \<rparr>"

fun records :: "world \<Rightarrow> dataset_key \<Rightarrow> jsval list" where
  "records w Contacts = contacts w"
| "records w Chats = chats w"
| "records w Messages = messages w"

section \<open>The log (\<^verbatim>\<open>pushLog\<close>)\<close>

datatype level = Info | Warn | Error | Success

text \<open>\<^verbatim>\<open>level.toUpperCase()\<close> on the four levels the script passes.\<close>

fun levelUpper :: "level \<Rightarrow> jstring" where
  "levelUpper Info = ascii ''INFO''"
| "levelUpper Warn = ascii ''WARN''"
| "levelUpper Error = ascii ''ERROR''"
| "levelUpper Success = ascii ''SUCCESS''"

text \<open>
  The line of one entry. \<open>details\<close> is \<open>None\<close> when the argument is left out; an empty
  string is falsy too and adds nothing.
\<close>

definition logLine :: "jstring \<Rightarrow> level \<Rightarrow> jstring \<Rightarrow> jstring option \<Rightarrow> jstring" where
  "logLine timestamp lvl message details =
     (let line = ascii ''['' @ timestamp @ ascii ''] ['' @ levelUpper lvl @ ascii ''] '' @ message
      in case details of
           None \<Rightarrow> line
         | Some d \<Rightarrow> (if d = [] then line else line @ ascii [CHR 0x0A] @ d))"

definition pushLog :: "engine \<Rightarrow> page \<Rightarrow> jstring \<Rightarrow> level \<Rightarrow> jstring option \<Rightarrow> world \<Rightarrow> world" where
  "pushLog eng pg message lvl details w =
     (let line = logLine (time_text eng (clockReads w)) lvl message details;
          pushed = logLines w @ [line];
          kept = (if length pushed > 400 then tl pushed else pushed);
          w1 = w\<lparr>logLines := kept, clockReads := Suc (clockReads w)\<rparr>
      in if has_logOutput pg
         then w1\<lparr>logOutput := joinWith (ascii [CHR 0x0A, CHR 0x0A]) kept\<rparr>
         else w1)"

text \<open>A run of calls of \<^verbatim>\<open>pushLog\<close>, first call first, and the lines they write.\<close>

definition pushLogs ::
  "engine \<Rightarrow> page \<Rightarrow> (jstring \<times> level \<times> jstring option) list \<Rightarrow> world \<Rightarrow> world" where
  "pushLogs eng pg calls w = foldl (\<lambda>v (m, l, d). pushLog eng pg m l d v) w calls"

fun linesOf :: "engine \<Rightarrow> nat \<Rightarrow> (jstring \<times> level \<times> jstring option) list \<Rightarrow> jstring list" where
  "linesOf eng n [] = []"
| "linesOf eng n ((m, l, d) # cs) = logLine (time_text eng n) l m d # linesOf eng (Suc n) cs"

section \<open>Values: truth, types, properties, text\<close>

fun truthy :: "jsval \<Rightarrow> bool" where
  "truthy JUndefined = False"
| "truthy JNull = False"
| "truthy (JBool b) = b"
| "truthy (JNum t) = (t \<noteq> ascii ''0'' \<and> t \<noteq> ascii ''NaN'')"
| "truthy (JStr s) = (s \<noteq> [])"
| "truthy (JArr xs) = True"
| "truthy (JObj kvs) = True"
| "truthy (JDate stamp) = True"
| "truthy (JFun src) = True"

fun nullish :: "jsval \<Rightarrow> bool" where
  "nullish JUndefined = True"
| "nullish JNull = True"
| "nullish v = False"

fun typeOf :: "jsval \<Rightarrow> jstring" where
  "typeOf JUndefined = ascii ''undefined''"
| "typeOf JNull = ascii ''object''"
| "typeOf (JBool b) = ascii ''boolean''"
| "typeOf (JNum t) = ascii ''number''"
| "typeOf (JStr s) = ascii ''string''"
| "typeOf (JArr xs) = ascii ''object''"
| "typeOf (JObj kvs) = ascii ''object''"
| "typeOf (JDate stamp) = ascii ''object''"
| "typeOf (JFun src) = ascii ''function''"

fun isArray :: "jsval \<Rightarrow> bool" where
  "isArray (JArr xs) = True"
| "isArray v = False"

text \<open>
  A property name is an array index when it is the decimal text of a number, with no
  leading zero.
\<close>

definition digitsValue :: "jstring \<Rightarrow> nat" where
  "digitsValue k = foldl (\<lambda>n c. 10 * n + (unat c - 48)) 0 k"

definition arrayIndex :: "jstring \<Rightarrow> nat option" where
  "arrayIndex k =
     (if k \<noteq> [] \<and> list_all (\<lambda>c. 48 \<le> c \<and> c \<le> 57) k \<and> decimal (digitsValue k) = k
      then Some (digitsValue k) else None)"

text \<open>
  The own properties the script can meet: those of a plain object, and the elements and
  the \<^verbatim>\<open>length\<close> of an array or of a string. Every other property comes from the engine
  (\<open>inherited\<close>). \<open>propertyOf\<close> is \<^verbatim>\<open>v[k]\<close> on a value that is neither \<^verbatim>\<open>null\<close> nor
  \<^verbatim>\<open>undefined\<close> (on these two the read throws a \<^verbatim>\<open>TypeError\<close>, which is written out
  wherever the script reads without a guard), and \<open>optionalRead\<close> is \<^verbatim>\<open>v?.k\<close>.
\<close>

fun ownProperty :: "jsval \<Rightarrow> jstring \<Rightarrow> jsval option" where
  "ownProperty (JObj kvs) k = map_of kvs k"
| "ownProperty (JArr xs) k =
     (if k = ascii ''length'' then Some (JNum (decimal (length xs)))
      else (case arrayIndex k of
              Some i \<Rightarrow> (if i < length xs then Some (xs ! i) else None)
            | None \<Rightarrow> None))"
| "ownProperty (JStr s) k =
     (if k = ascii ''length'' then Some (JNum (decimal (length s)))
      else (case arrayIndex k of
              Some i \<Rightarrow> (if i < length s then Some (JStr [s ! i]) else None)
            | None \<Rightarrow> None))"
| "ownProperty v k = None"

definition propertyOf :: "engine \<Rightarrow> jsval \<Rightarrow> jstring \<Rightarrow> jsval" where
  "propertyOf eng v k = (case ownProperty v k of Some x \<Rightarrow> x | None \<Rightarrow> inherited eng v k)"

definition optionalRead :: "engine \<Rightarrow> jsval \<Rightarrow> jstring \<Rightarrow> jsval" where
  "optionalRead eng v k = (if nullish v then JUndefined else propertyOf eng v k)"

text \<open>\<^verbatim>\<open>String(v)\<close>.\<close>

fun toText :: "engine \<Rightarrow> jsval \<Rightarrow> jstring" where
  "toText eng JUndefined = ascii ''undefined''"
| "toText eng JNull = ascii ''null''"
| "toText eng (JBool b) = (if b then ascii ''true'' else ascii ''false'')"
| "toText eng (JNum t) = t"
| "toText eng (JStr s) = s"
| "toText eng (JFun src) = src"
| "toText eng v = object_text eng v"

section \<open>Escaping and cell formatting (\<^verbatim>\<open>escapeHtml\<close>, \<^verbatim>\<open>formatValue\<close>)\<close>

text \<open>
  \<^verbatim>\<open>s.replace(/c/g, r)\<close> for a single character \<open>c\<close> and a replacement without
  \<^verbatim>\<open>$\<close>: every \<open>c\<close> becomes \<open>r\<close>.
\<close>

definition replaceAll :: "unit16 \<Rightarrow> jstring \<Rightarrow> jstring \<Rightarrow> jstring" where
  "replaceAll c r s = concat (map (\<lambda>x. if x = c then r else [x]) s)"

text \<open>The five passes of \<^verbatim>\<open>escapeHtml\<close>, in the order of the source, on \<^verbatim>\<open>String(value)\<close>.\<close>

definition escapeHtml :: "jstring \<Rightarrow> jstring" where
  "escapeHtml v =
     replaceAll 0x27 (ascii ''&#39;'')
       (replaceAll 0x22 (ascii ''&quot;'')
         (replaceAll 0x3E (ascii ''&gt;'')
           (replaceAll 0x3C (ascii ''&lt;'')
             (replaceAll 0x26 (ascii ''&amp;'') v))))"

text \<open>
  Escaping in the words of the specification: each ampersand, angle bracket, double and
  single quote is replaced by its character reference, every other character is kept.
\<close>

definition escapeUnit :: "unit16 \<Rightarrow> jstring" where
  "escapeUnit c =
     (if c = 0x26 then ascii ''&amp;''
      else if c = 0x3C then ascii ''&lt;''
      else if c = 0x3E then ascii ''&gt;''
      else if c = 0x22 then ascii ''&quot;''
      else if c = 0x27 then ascii ''&#39;''
      else [c])"

definition escaped :: "jstring \<Rightarrow> jstring" where
  "escaped s = concat (map escapeUnit s)"

text \<open>The placeholder is the markup \<^verbatim>\<open><span class="muted">\<close>, an em dash (U+2014), \<^verbatim>\<open></span>\<close>.\<close>

definition placeholder :: jstring where
  "placeholder = ascii ''<span class=\"muted\">'' @ [0x2014] @ ascii ''</span>''"

text \<open>
  \<^verbatim>\<open>formatValue\<close>, its tests in the order of the source. \<^verbatim>\<open>value instanceof Date\<close>
  holds of a \<open>JDate\<close> only, and \<^verbatim>\<open>toISOString()\<close> gives its text.
\<close>

definition formatValue :: "engine \<Rightarrow> jsval \<Rightarrow> jstring" where
  "formatValue eng v =
     (if v = JNull \<or> v = JUndefined then placeholder
      else if typeOf v = ascii ''object'' then
        (case json_stringify eng v of
           Some t \<Rightarrow> ascii ''<code>'' @ escapeHtml t @ ascii ''</code>''
         | None \<Rightarrow> ascii ''<code>'' @ escapeHtml (toText eng v) @ ascii ''</code>'')
      else if typeOf v = ascii ''boolean'' then (if truthy v then ascii ''true'' else ascii ''false'')
      else (case v of
              JDate stamp \<Rightarrow> escapeHtml stamp
            | _ \<Rightarrow> escapeHtml (toText eng v)))"

section \<open>The table (\<^verbatim>\<open>updateDataTable\<close>)\<close>

definition hasAnyRecords :: "world \<Rightarrow> bool" where
  "hasAnyRecords w = list_ex (\<lambda>d. length (records w d) > 0) DATASETS"

text \<open>
  The test \<^verbatim>\<open>record && typeof record === 'object' && !Array.isArray(record)\<close>, and
  \<^verbatim>\<open>Object.keys\<close> on a value that passes it. (The order in which \<^verbatim>\<open>Object.keys\<close> lists
  the keys is of no account: the keys go into a set that is sorted afterwards.)
\<close>

definition isPlainObject :: "jsval \<Rightarrow> bool" where
  "isPlainObject r = (truthy r \<and> typeOf r = ascii ''object'' \<and> \<not> isArray r)"

fun objectKeys :: "jsval \<Rightarrow> jstring list" where
  "objectKeys (JObj kvs) = map fst kvs"
| "objectKeys v = []"

text \<open>\<^verbatim>\<open>columns.add(key)\<close> on a \<^verbatim>\<open>Set\<close>, kept in insertion order.\<close>

definition setAdd :: "jstring \<Rightarrow> jstring list \<Rightarrow> jstring list" where
  "setAdd k cols = (if k \<in> set cols then cols else cols @ [k])"

definition collectColumns :: "jsval list \<Rightarrow> jstring list" where
  "collectColumns recs =
     fold (\<lambda>r cols. if isPlainObject r then fold setAdd (objectKeys r) cols else cols) recs []"

text \<open>
  \<^verbatim>\<open>Array.from(columns).sort()\<close>: the default order of \<^verbatim>\<open>sort\<close> on strings compares code
  units, which is the lexicographic order of \<open>jstring\<close>; the keys are distinct, so the
  sorted array is the same whatever the sorting algorithm.
\<close>

definition columnList :: "jsval list \<Rightarrow> jstring list" where
  "columnList recs = sort (collectColumns recs)"

definition headerCells :: "jsval list \<Rightarrow> jstring list" where
  "headerCells recs = map (\<lambda>col. ascii ''<th>'' @ escapeHtml col @ ascii ''</th>'') (columnList recs)"

text \<open>\<^verbatim>\<open>record ? record[col] : undefined\<close>: a truthy value is neither \<^verbatim>\<open>null\<close> nor \<^verbatim>\<open>undefined\<close>.\<close>

definition cellValue :: "engine \<Rightarrow> jsval \<Rightarrow> jstring \<Rightarrow> jsval" where
  "cellValue eng r col = (if truthy r then propertyOf eng r col else JUndefined)"

definition rowCells :: "engine \<Rightarrow> jstring list \<Rightarrow> jsval \<Rightarrow> jstring list" where
  "rowCells eng cols r =
     map (\<lambda>col. ascii ''<td>'' @ formatValue eng (cellValue eng r col) @ ascii ''</td>'') cols"

definition rowsHtml :: "engine \<Rightarrow> jsval list \<Rightarrow> jstring list" where
  "rowsHtml eng recs =
     map (\<lambda>r. ascii ''<tr>'' @ concat (rowCells eng (columnList recs) r) @ ascii ''</tr>'') recs"

text \<open>
  \<^verbatim>\<open>updateDataTable\<close>. The active key is always a key of \<^verbatim>\<open>DATASETS\<close>, so
  \<^verbatim>\<open>activeMeta\<close> is its entry. The call of \<^verbatim>\<open>updateDatasetButtons\<close> in the middle only
  writes the captions of the buttons, which are not part of this model.
\<close>

definition updateDataTable :: "engine \<Rightarrow> page \<Rightarrow> world \<Rightarrow> world" where
  "updateDataTable eng pg w =
     (if \<not> has_dataTable pg then w
      else if \<not> hasAnyRecords w then
        w\<lparr>cardHidden := True, emptyStateHidden := False,
          emptyStateText := ascii ''Carregue dados para visualizar os campos aqui.'',
          tableHidden := True, theadHtml := [], tbodyHtml := []\<rparr>
      else
        (let recs = records w (dataset w)
         in if recs = [] then
              w\<lparr>cardHidden := False, emptyStateHidden := False,
                emptyStateText :=
                  ascii ''Nenhum registro carregado para '' @ label (dataset w) @ ascii ''.'',
                tableHidden := True, theadHtml := [], tbodyHtml := []\<rparr>
            else
              w\<lparr>cardHidden := False, emptyStateHidden := True, tableHidden := False,
                theadHtml := ascii ''<tr>'' @ concat (headerCells recs) @ ascii ''</tr>'',
                tbodyHtml := concat (rowsHtml eng recs)\<rparr>))"

section \<open>Replacing the state (\<^verbatim>\<open>refreshUI\<close>, \<^verbatim>\<open>applyData\<close>)\<close>

text \<open>How a call ends: it returns, or it throws an error of some name and message.\<close>

datatype completion = Returned | Threw jstring jstring

text \<open>
  Of \<^verbatim>\<open>updateMetricsCard\<close> only the end is modelled (the metrics list is not): with the
  card on the page and some record loaded, \<^verbatim>\<open>item.exported_to_chatwoot\<close> is read of
  every record, which throws a \<^verbatim>\<open>TypeError\<close> at a record that is \<^verbatim>\<open>null\<close>.
\<close>

definition updateMetricsCard :: "engine \<Rightarrow> page \<Rightarrow> world \<Rightarrow> completion" where
  "updateMetricsCard eng pg w =
     (if has_statsCard pg \<and> hasAnyRecords w
         \<and> list_ex nullish (contacts w @ chats w @ messages w)
      then Threw (ascii ''TypeError'') (null_read_text eng (ascii ''exported_to_chatwoot''))
      else Returned)"

text \<open>
  \<^verbatim>\<open>refreshUI\<close> calls \<^verbatim>\<open>updateDatasetButtons\<close>, \<^verbatim>\<open>updateSummaryCard\<close>,
  \<^verbatim>\<open>updateMetricsCard\<close>, \<^verbatim>\<open>updateDataTable\<close> and \<^verbatim>\<open>updateSamplesCard\<close>. The first two
  and the last write captions and panes that are not part of this model and do not throw
  on a page as described at \<open>page\<close>.
\<close>

definition refreshUI :: "engine \<Rightarrow> page \<Rightarrow> world \<Rightarrow> completion \<times> world" where
  "refreshUI eng pg w =
     (case updateMetricsCard eng pg w of
        Threw name message \<Rightarrow> (Threw name message, w)
      | Returned \<Rightarrow> (Returned, updateDataTable eng pg w))"

text \<open>The four constants at the head of \<^verbatim>\<open>applyData\<close>.\<close>

definition payloadSummary :: "engine \<Rightarrow> jsval \<Rightarrow> jsval" where
  "payloadSummary eng payload =
     (let s = optionalRead eng payload (ascii ''summary'') in if nullish s then JNull else s)"

definition payloadArray :: "engine \<Rightarrow> jsval \<Rightarrow> jstring \<Rightarrow> jsval list" where
  "payloadArray eng payload k =
     (case optionalRead eng payload k of JArr xs \<Rightarrow> xs | _ \<Rightarrow> [])"

definition countsText :: "world \<Rightarrow> jstring" where
  "countsText w =
     joinWith (ascii '' | '')
       (map (\<lambda>d. label d @ ascii '': '' @ decimal (length (records w d))) DATASETS)"

text \<open>
  The re-selection of the active key, \<^verbatim>\<open>if (!state[state.dataset] || ...length === 0)\<close>:
  \<^verbatim>\<open>state[state.dataset]\<close> is always an array here, so only its length is tested.
\<close>

definition reselect :: "world \<Rightarrow> world" where
  "reselect w =
     (if length (records w (dataset w)) = 0
      then w\<lparr>dataset := (case find (\<lambda>d. length (records w d) > 0) DATASETS of
                           Some fallback \<Rightarrow> fallback
                         | None \<Rightarrow> Contacts)\<rparr>
      else w)"

text \<open>
  \<^verbatim>\<open>applyData\<close>: the four assignments, the re-selection, \<^verbatim>\<open>refreshUI\<close>, and the entry in
  the log, which is not reached when \<^verbatim>\<open>refreshUI\<close> throws.
\<close>

definition applyData :: "engine \<Rightarrow> page \<Rightarrow> jsval \<Rightarrow> jstring \<Rightarrow> world \<Rightarrow> completion \<times> world" where
  "applyData eng pg payload sourceLabel w =
     (let w1 = w\<lparr>summary := payloadSummary eng payload,
                 contacts := payloadArray eng payload (ascii ''contacts''),
                 chats := payloadArray eng payload (ascii ''chats''),
                 messages := payloadArray eng payload (ascii ''messages'')\<rparr>;
          w2 = reselect w1
      in case refreshUI eng pg w2 of
           (Threw name message, w3) \<Rightarrow> (Threw name message, w3)
         | (Returned, w3) \<Rightarrow>
             (Returned,
              pushLog eng pg (sourceLabel @ ascii '': dados atualizados'') Success
                (Some (countsText w3)) w3))"

section \<open>The tolerant parser (\<^verbatim>\<open>parseNDJSON\<close>)\<close>

text \<open>
  \<^verbatim>\<open>String.prototype.trim\<close> removes white space and line terminators from both ends:
  TAB, LF, VT, FF, CR, SP, NBSP, U+1680, U+2000 to U+200A, U+2028, U+2029, U+202F,
  U+205F, U+3000 and U+FEFF.
\<close>

definition isTrimmed :: "unit16 \<Rightarrow> bool" where
  "isTrimmed c =
     (c \<in> {0x09, 0x0A, 0x0B, 0x0C, 0x0D, 0x20, 0xA0, 0x1680, 0x2028, 0x2029, 0x202F,
            0x205F, 0x3000, 0xFEFF}
      \<or> (0x2000 \<le> c \<and> c \<le> 0x200A))"

definition trim :: "jstring \<Rightarrow> jstring" where
  "trim s = rev (dropWhile isTrimmed (rev (dropWhile isTrimmed s)))"

text \<open>
  \<^verbatim>\<open>text.split(/\r?\n/)\<close>: a line ends at a line feed, or at a carriage return that a
  line feed follows; \<open>cur\<close> is the line read so far. The text after the last separator
  is a line too, so the empty text has one (empty) line.
\<close>

fun splitFrom :: "jstring \<Rightarrow> jstring \<Rightarrow> jstring list" where
  "splitFrom cur [] = [cur]"
| "splitFrom cur [c] = (if c = 0x0A then [cur, []] else [cur @ [c]])"
| "splitFrom cur (c # d # cs) =
     (if c = 0x0A then cur # splitFrom [] (d # cs)
      else if c = 0x0D \<and> d = 0x0A then cur # splitFrom [] cs
      else splitFrom (cur @ [c]) (d # cs))"

definition splitLines :: "jstring \<Rightarrow> jstring list" where
  "splitLines t = splitFrom [] t"

text \<open>
  The body of \<^verbatim>\<open>lines.forEach((line, index) => ...)\<close>, from the line of index \<open>index\<close>
  on: \<open>out\<close> is the array being filled, and a line \<^verbatim>\<open>JSON.parse\<close> rejects is caught
  and logged with its number.
\<close>

definition lineErrorMessage :: "jstring option \<Rightarrow> jstring" where
  "lineErrorMessage sourceLabel =
     ascii ''N'' @ [0xE3] @ ascii ''o foi poss'' @ [0xED] @ ascii ''vel interpretar uma linha em ''
       @ (case sourceLabel of None \<Rightarrow> ascii ''NDJSON''
          | Some l \<Rightarrow> (if l = [] then ascii ''NDJSON'' else l))"

fun parseLines ::
  "engine \<Rightarrow> page \<Rightarrow> jstring option \<Rightarrow> nat \<Rightarrow> jstring list \<Rightarrow> jsval list \<times> world
     \<Rightarrow> jsval list \<times> world" where
  "parseLines eng pg sourceLabel index [] (out, w) = (out, w)"
| "parseLines eng pg sourceLabel index (line # rest) (out, w) =
     (let trimmed = trim line
      in if trimmed = [] then parseLines eng pg sourceLabel (Suc index) rest (out, w)
         else (case json_parse eng trimmed of
                 Inr v \<Rightarrow> parseLines eng pg sourceLabel (Suc index) rest (out @ [v], w)
               | Inl message \<Rightarrow>
                   parseLines eng pg sourceLabel (Suc index) rest
                     (out, pushLog eng pg (lineErrorMessage sourceLabel) Error
                        (Some (ascii ''Linha '' @ decimal (index + 1) @ ascii '': '' @ message)) w)))"

text \<open>\<open>text\<close> is \<open>None\<close> for \<^verbatim>\<open>null\<close>; the empty string is falsy as well.\<close>

definition parseNDJSON ::
  "engine \<Rightarrow> page \<Rightarrow> jstring option \<Rightarrow> jstring option \<Rightarrow> world \<Rightarrow> jsval list \<times> world" where
  "parseNDJSON eng pg text sourceLabel w =
     (case text of
        None \<Rightarrow> ([], w)
      | Some t \<Rightarrow> (if t = [] then ([], w)
                   else parseLines eng pg sourceLabel 0 (splitLines t) ([], w)))"

text \<open>
  The lines of a text that are not blank, in the words of the specification: split at
  line breaks, the lines of white space only left out. An absent text has no line.
\<close>

definition nonBlankLines :: "jstring option \<Rightarrow> jstring list" where
  "nonBlankLines text =
     (case text of None \<Rightarrow> [] | Some t \<Rightarrow> filter (\<lambda>l. trim l \<noteq> []) (splitLines t))"

section \<open>Loading by prefix (\<^verbatim>\<open>fetchJSON\<close>, \<^verbatim>\<open>fetchText\<close>, \<^verbatim>\<open>loadByPrefix\<close>)\<close>

text \<open>
  What a call of \<^verbatim>\<open>fetch\<close> comes to: the promise is rejected with an error of some
  message, or it yields a response with its \<^verbatim>\<open>ok\<close> flag and the text of its body. The
  network is a function from the URL to this outcome. Each operation is modelled as run
  from its start to its end; what other events do between its \<^verbatim>\<open>await\<close>s is outside of
  this model.
\<close>

datatype response = NetworkError jstring | Response bool jstring

text \<open>\<^verbatim>\<open>err.stack || String(err)\<close> for an error of a name and a message.\<close>

definition errorString :: "jstring \<Rightarrow> jstring \<Rightarrow> jstring" where
  "errorString name message = (if message = [] then name else name @ ascii '': '' @ message)"

definition errorText :: "engine \<Rightarrow> jstring \<Rightarrow> jstring \<Rightarrow> jstring" where
  "errorText eng name message =
     (if stack_text eng name message \<noteq> [] then stack_text eng name message
      else errorString name message)"

definition fetchText ::
  "engine \<Rightarrow> page \<Rightarrow> (jstring \<Rightarrow> response) \<Rightarrow> jstring \<Rightarrow> world \<Rightarrow> jstring option \<times> world" where
  "fetchText eng pg net url w =
     (let w1 = w\<lparr>requests := requests w @ [url]\<rparr>
      in case net url of
           NetworkError message \<Rightarrow>
             (None, pushLog eng pg (ascii ''Falha ao buscar texto em '' @ url) Warn (Some message) w1)
         | Response ok body \<Rightarrow> (if \<not> ok then (None, w1) else (Some body, w1)))"

text \<open>\<^verbatim>\<open>res.json()\<close> reads the body as \<^verbatim>\<open>JSON.parse\<close> does; what it throws is caught too.\<close>

definition fetchJSON ::
  "engine \<Rightarrow> page \<Rightarrow> (jstring \<Rightarrow> response) \<Rightarrow> jstring \<Rightarrow> world \<Rightarrow> jsval \<times> world" where
  "fetchJSON eng pg net url w =
     (let w1 = w\<lparr>requests := requests w @ [url]\<rparr>
      in case net url of
           NetworkError message \<Rightarrow>
             (JNull, pushLog eng pg (ascii ''Falha ao buscar JSON em '' @ url) Warn (Some message) w1)
         | Response ok body \<Rightarrow>
             (if \<not> ok then (JNull, w1)
              else (case json_parse eng body of
                      Inl message \<Rightarrow>
                        (JNull,
                         pushLog eng pg (ascii ''Falha ao buscar JSON em '' @ url) Warn
                           (Some message) w1)
                    | Inr v \<Rightarrow> (v, w1))))"

text \<open>
  \<^verbatim>\<open>(await fetchText(first)) || (await fetchText(second))\<close>: the second text is fetched
  when the first is falsy, that is \<^verbatim>\<open>null\<close> or the empty string.
\<close>

definition truthyText :: "jstring option \<Rightarrow> bool" where
  "truthyText t = (case t of None \<Rightarrow> False | Some s \<Rightarrow> s \<noteq> [])"

definition fetchTextOr ::
  "engine \<Rightarrow> page \<Rightarrow> (jstring \<Rightarrow> response) \<Rightarrow> jstring \<Rightarrow> jstring \<Rightarrow> world
     \<Rightarrow> jstring option \<times> world" where
  "fetchTextOr eng pg net first second w =
     (case fetchText eng pg net first w of
        (t, w1) \<Rightarrow> (if truthyText t then (t, w1) else fetchText eng pg net second w1))"

text \<open>The two resources of a dataset under a base location.\<close>

definition exportStatusUrl :: "jstring \<Rightarrow> dataset_key \<Rightarrow> jstring" where
  "exportStatusUrl base d = base @ ascii ''/'' @ keyName d @ ascii ''_export_status.ndjson''"

definition rawUrl :: "jstring \<Rightarrow> dataset_key \<Rightarrow> jstring" where
  "rawUrl base d = base @ ascii ''/'' @ keyName d @ ascii ''.ndjson''"

text \<open>
  \<^verbatim>\<open>loadByPrefix\<close>. Inside its \<^verbatim>\<open>try\<close> only \<^verbatim>\<open>applyData\<close> can throw; the \<^verbatim>\<open>catch\<close>
  logs the error and raises an alert.
\<close>

definition loadByPrefix ::
  "engine \<Rightarrow> page \<Rightarrow> (jstring \<Rightarrow> response) \<Rightarrow> jstring \<Rightarrow> world \<Rightarrow> world" where
  "loadByPrefix eng pg net prefix w =
     (let trimmed = trim prefix
      in if trimmed = [] then w\<lparr>alerts := alerts w @ [ascii ''Informe um prefixo'']\<rparr>
         else
           (let w0 = pushLog eng pg (ascii ''Carregando dados a partir do prefixo '' @ trimmed)
                       Info None w;
                base = ascii ''../data/'' @ trimmed;
                (summary1, w1) = fetchJSON eng pg net (base @ ascii ''/summary.json'') w0;
                (summary2, w2) =
                   (if \<not> truthy summary1
                    then fetchJSON eng pg net (base @ ascii ''/load_summary.json'') w1
                    else (summary1, w1));
                (contactsText, w3) =
                   fetchTextOr eng pg net (exportStatusUrl base Contacts) (rawUrl base Contacts) w2;
                (chatsText, w4) =
                   fetchTextOr eng pg net (exportStatusUrl base Chats) (rawUrl base Chats) w3;
                (messagesText, w5) =
                   fetchTextOr eng pg net (exportStatusUrl base Messages) (rawUrl base Messages) w4;
                w6 = (if \<not> truthy summary2 \<and> \<not> truthyText contactsText
                         \<and> \<not> truthyText chatsText \<and> \<not> truthyText messagesText
                      then pushLog eng pg (ascii ''Nenhum arquivo encontrado em '' @ base) Warn None w5
                      else w5);
                (contactsList, w7) =
                   parseNDJSON eng pg contactsText (Some (ascii ''Contatos (prefixo)'')) w6;
                (chatsList, w8) =
                   parseNDJSON eng pg chatsText (Some (ascii ''Conversas (prefixo)'')) w7;
                (messagesList, w9) =
                   parseNDJSON eng pg messagesText (Some (ascii ''Mensagens (prefixo)'')) w8
            in case applyData eng pg
                      (JObj [(ascii ''summary'', summary2),
                             (ascii ''contacts'', JArr contactsList),
                             (ascii ''chats'', JArr chatsList),
                             (ascii ''messages'', JArr messagesList)])
                      (ascii ''Prefixo '' @ trimmed) w9 of
                 (Returned, w10) \<Rightarrow> w10
               | (Threw name message, w10) \<Rightarrow>
                   (let w11 = pushLog eng pg (ascii ''Erro ao carregar prefixo '' @ trimmed) Error
                                (Some (errorText eng name message)) w10
                    in w11\<lparr>alerts := alerts w11 @ [ascii ''Falha ao carregar prefixo: '' @ message]\<rparr>)))"

text \<open>
  The text of a dataset that the loader feeds to the parser, as a function of the
  network alone: the text of the export-status resource when that is there and not
  empty, and else the text of the raw resource when that is there.
\<close>

definition resourceText :: "(jstring \<Rightarrow> response) \<Rightarrow> jstring \<Rightarrow> jstring option" where
  "resourceText net url =
     (case net url of NetworkError message \<Rightarrow> None
      | Response ok body \<Rightarrow> (if ok then Some body else None))"

definition chosenText :: "(jstring \<Rightarrow> response) \<Rightarrow> jstring \<Rightarrow> dataset_key \<Rightarrow> jstring option" where
  "chosenText net base d =
     (if truthyText (resourceText net (exportStatusUrl base d))
      then resourceText net (exportStatusUrl base d)
      else resourceText net (rawUrl base d))"

text \<open>
  The requests that \<^verbatim>\<open>loadByPrefix\<close> makes for a dataset, in their order: the
  export-status resource, and then the raw resource unless the first text is truthy.
\<close>

definition datasetRequests :: "(jstring \<Rightarrow> response) \<Rightarrow> jstring \<Rightarrow> dataset_key \<Rightarrow> jstring list" where
  "datasetRequests net base d =
     (if truthyText (resourceText net (exportStatusUrl base d)) then [exportStatusUrl base d]
      else [exportStatusUrl base d, rawUrl base d])"

section \<open>The self-test (\<^verbatim>\<open>updateStatus\<close>, \<^verbatim>\<open>runTest\<close>)\<close>

text \<open>\<^verbatim>\<open>updateStatus\<close> writes the text and the class of the status line, when the page has one.\<close>

definition updateStatus :: "page \<Rightarrow> jstring \<Rightarrow> jstring \<Rightarrow> world \<Rightarrow> world" where
  "updateStatus pg t statusClass w =
     (if has_testStatus pg then w\<lparr>testStatus := (t, statusClass)\<rparr> else w)"

text \<open>
  The message of the error thrown for a response that is not \<^verbatim>\<open>ok\<close>, from a payload
  that is neither \<^verbatim>\<open>null\<close> nor \<^verbatim>\<open>undefined\<close>: \<^verbatim>\<open>payload.error || 'Falha ...'\<close>, followed
  by the hint when \<^verbatim>\<open>payload.hint\<close> is truthy.
\<close>

definition failureMessage :: "engine \<Rightarrow> jsval \<Rightarrow> jstring" where
  "failureMessage eng payload =
     (let e = propertyOf eng payload (ascii ''error'');
          errorMessage = (if truthy e then toText eng e
                          else ascii ''Falha na fun'' @ [0xE7, 0xE3] @ ascii ''o serverless'');
          h = propertyOf eng payload (ascii ''hint'');
          hint = (if truthy h then [0x0A] @ ascii ''Dica: '' @ toText eng h else [])
      in errorMessage @ hint)"

text \<open>\<^verbatim>\<open>payload.contacts?.length ?? 0\<close> in a template literal, for a payload that is not \<^verbatim>\<open>null\<close>.\<close>

definition lengthText :: "engine \<Rightarrow> jsval \<Rightarrow> jstring \<Rightarrow> jstring" where
  "lengthText eng payload k =
     (let n = optionalRead eng (propertyOf eng payload k) (ascii ''length'')
      in if nullish n then ascii ''0'' else toText eng n)"

text \<open>
  The \<^verbatim>\<open>try\<close> block of \<^verbatim>\<open>runTest\<close>, from the outcome \<open>post\<close> of the \<^verbatim>\<open>POST\<close> request on:
  how it ends, and the state it leaves.
\<close>

definition runTestBody :: "engine \<Rightarrow> page \<Rightarrow> response \<Rightarrow> world \<Rightarrow> completion \<times> world" where
  "runTestBody eng pg post w =
     (case post of
        NetworkError message \<Rightarrow> (Threw (ascii ''TypeError'') message, w)
      | Response ok body \<Rightarrow>
          (case json_parse eng (if body = [] then ascii ''{}'' else body) of
             Inl message \<Rightarrow>
               (Threw (ascii ''Error'')
                  (ascii ''Resposta inv'' @ [0xE1] @ ascii ''lida da fun'' @ [0xE7, 0xE3]
                     @ ascii ''o (JSON malformado).''), w)
           | Inr payload \<Rightarrow>
               (if \<not> ok then
                  (if nullish payload
                   then (Threw (ascii ''TypeError'') (null_read_text eng (ascii ''error'')), w)
                   else (Threw (ascii ''Error'') (failureMessage eng payload), w))
                else
                  (case applyData eng pg payload (ascii ''Teste r'' @ [0xE1] @ ascii ''pido'') w of
                     (Threw name message, w1) \<Rightarrow> (Threw name message, w1)
                   | (Returned, w1) \<Rightarrow>
                       (let w2 = updateStatus pg
                                   (ascii ''Teste conclu'' @ [0xED] @ ascii ''do com sucesso.'')
                                   (ascii ''success'') w1
                        in if nullish payload
                           then (Threw (ascii ''TypeError'')
                                   (null_read_text eng (ascii ''contacts'')), w2)
                           else
                             (Returned,
                              pushLog eng pg
                                (ascii ''Teste r'' @ [0xE1] @ ascii ''pido conclu'' @ [0xED] @ ascii ''do'')
                                Success
                                (Some (ascii ''Contatos: '' @ lengthText eng payload (ascii ''contacts'')
                                       @ ascii '' | Conversas: ''
                                       @ lengthText eng payload (ascii ''chats'')
                                       @ ascii '' | Mensagens: ''
                                       @ lengthText eng payload (ascii ''messages'')))
                                w2))))))"

text \<open>
  \<^verbatim>\<open>runTest\<close>: nothing happens on a page without the button; else the status line and
  the log announce the run, the body runs, and the \<^verbatim>\<open>catch\<close> writes the message of a
  thrown error to the status line and logs the error. (The button is disabled during the
  run and enabled again in the \<^verbatim>\<open>finally\<close>; this is not part of the model.)
\<close>

definition runTest :: "engine \<Rightarrow> page \<Rightarrow> response \<Rightarrow> world \<Rightarrow> world" where
  "runTest eng pg post w =
     (if \<not> has_btnTestRun pg then w
      else
        (let w1 = updateStatus pg (ascii ''Executando teste r'' @ [0xE1] @ ascii ''pido'' @ [0x2026])
                    (ascii ''loading'') w;
             w2 = pushLog eng pg
                    (ascii ''Executando teste r'' @ [0xE1] @ ascii ''pido na fun'' @ [0xE7, 0xE3]
                       @ ascii ''o serverless'' @ [0x2026])
                    Info None w1
         in case runTestBody eng pg post w2 of
              (Returned, w3) \<Rightarrow> w3
            | (Threw name message, w3) \<Rightarrow>
                pushLog eng pg (ascii ''Erro ao executar teste r'' @ [0xE1] @ ascii ''pido'') Error
                  (Some (errorText eng name message))
                  (updateStatus pg (ascii ''Erro: '' @ message) (ascii ''error'') w3)))"

text \<open>
  What a failed run of the self-test leaves, from the state \<open>w\<close> before it to the state
  \<open>w'\<close> after it, for the error of a name and a message that was thrown: the object
  \<^verbatim>\<open>state\<close> as it was, the message on the status line when the page has one, and as
  the newest line of the log the entry of the \<^verbatim>\<open>catch\<close>, written at the second reading of
  the clock.
\<close>

definition failureShown :: "engine \<Rightarrow> page \<Rightarrow> world \<Rightarrow> world \<Rightarrow> jstring \<Rightarrow> jstring \<Rightarrow> bool" where
  "failureShown eng pg w w' name message =
     (appState w' = appState w
      \<and> (has_testStatus pg \<longrightarrow> testStatus w' = (ascii ''Erro: '' @ message, ascii ''error''))
      \<and> last (logLines w') =
          logLine (time_text eng (Suc (clockReads w))) Error
            (ascii ''Erro ao executar teste r'' @ [0xE1] @ ascii ''pido'')
            (Some (errorText eng name message)))"

text \<open>Whether a text occurs in another.\<close>

fun containsText :: "jstring \<Rightarrow> jstring \<Rightarrow> bool" where
  "containsText needle [] = (needle = [])"
| "containsText needle (c # cs) =
     (take (length needle) (c # cs) = needle \<or> containsText needle cs)"

section \<open>Values without a \<^verbatim>\<open>Date\<close>\<close>



section \<open>An engine and a page for the examples\<close>

text \<open>
  The worked examples run on this engine. Its \<^verbatim>\<open>JSON.parse\<close> knows the texts the
  examples use, each with the value a JavaScript engine gives it, and rejects the text
  \<^verbatim>\<open>bad-json\<close> and any other. Its \<^verbatim>\<open>JSON.stringify\<close> gives a \<^verbatim>\<open>Date\<close> its ISO text in
  double quotes, as \<^verbatim>\<open>Date.prototype.toJSON\<close> makes every engine do, and gives the values
  of the same table their texts (all are written without white space). Its clock stands
  still, its errors carry no \<^verbatim>\<open>stack\<close>, and no value inherits a property. The page has
  every element.
\<close>

definition sample_texts :: "(jstring \<times> jsval) list" where
  "sample_texts =
     [(ascii ''{}'', JObj []),
      (ascii ''null'', JNull),
      (ascii ''{\"a\":1}'', JObj [(ascii ''a'', JNum (ascii ''1''))]),
      (ascii ''{\"b\":2}'', JObj [(ascii ''b'', JNum (ascii ''2''))]),
      (ascii ''[7,8]'', JArr [JNum (ascii ''7''), JNum (ascii ''8'')]),
      (ascii ''{\"a\":\"<b>\"}'', JObj [(ascii ''a'', JStr (ascii ''<b>''))]),
      (ascii ''{\"error\":\"auth failed\",\"hint\":\"rotate token\"}'',
         JObj [(ascii ''error'', JStr (ascii ''auth failed'')),
               (ascii ''hint'', JStr (ascii ''rotate token''))])]"

definition sample_engine :: engine where
  "sample_engine =
     \<lparr> json_parse = (\<lambda>t. case map_of sample_texts t of
                          Some v \<Rightarrow> Inr v
                        | None \<Rightarrow> Inl (ascii ''Unexpected token'')),
       json_stringify = (\<lambda>v. case v of
                          JDate stamp \<Rightarrow> Some (ascii ''\"'' @ stamp @ ascii ''\"'')
                        | _ \<Rightarrow> map_of (map (\<lambda>(t, x). (x, t)) sample_texts) v),
       object_text = (\<lambda>v. ascii ''[object Object]''),
       inherited = (\<lambda>v k. JUndefined),
       time_text = (\<lambda>n. ascii ''00:00:00''),
       stack_text = (\<lambda>name message. []),
       null_read_text = (\<lambda>k. ascii ''Cannot read properties of null'') \<rparr>"

definition sample_page :: page where
  "sample_page =
     \<lparr> has_logOutput = True, has_statsCard = True, has_dataTable = True,
       has_btnTestRun = True, has_testStatus = True \<rparr>"

text \<open>
  The first example of the specification, with a blank line and a CR LF break added:
  \<^verbatim>\<open>{"a":1}\<close>, \<^verbatim>\<open>bad-json\<close>, a line of a space and a tab, \<^verbatim>\<open>{"b":2}\<close>.
\<close>

definition scenario_text :: jstring where
  "scenario_text =
     ascii ''{\"a\":1}'' @ [0x0A] @ ascii ''bad-json'' @ [0x0D, 0x0A] @ ascii '' '' @ [0x09, 0x0A]
       @ ascii ''{\"b\":2}''"

text \<open>
  A payload with no contacts, a malformed \<^verbatim>\<open>messages\<close> field, three chats and a summary:
  \<^verbatim>\<open>{"summary":{"ok":true},"chats":[{"id":1},{"id":2},{"id":3}],"messages":"none"}\<close>.
\<close>

definition sample_payload :: jsval where
  "sample_payload =
     JObj [(ascii ''summary'', JObj [(ascii ''ok'', JBool True)]),
           (ascii ''chats'',
              JArr [JObj [(ascii ''id'', JNum (ascii ''1''))],
                    JObj [(ascii ''id'', JNum (ascii ''2''))],
                    JObj [(ascii ''id'', JNum (ascii ''3''))]]),
           (ascii ''messages'', JStr (ascii ''none''))]"

text \<open>
  Four records as \<^verbatim>\<open>parseNDJSON\<close> can return them, from the lines
  \<^verbatim>\<open>{"b":"<i>","0":"x"}\<close>, \<^verbatim>\<open>[7,8]\<close>, \<^verbatim>\<open>null\<close> and \<^verbatim>\<open>{"a":true}\<close>.
\<close>

definition sample_records :: "jsval list" where
  "sample_records =
     [JObj [(ascii ''b'', JStr (ascii ''<i>'')), (ascii ''0'', JStr (ascii ''x''))],
      JArr [JNum (ascii ''7''), JNum (ascii ''8'')],
      JNull,
      JObj [(ascii ''a'', JBool True)]]"

text \<open>
  Two networks for the prefix \<^verbatim>\<open>p\<close>. On the first both resources of the contacts are
  there, with one record each. On the second the export-status resource of the contacts
  is there and empty, and the raw resource has one record. Every other request is
  answered with status 404.
\<close>

definition sample_net :: "jstring \<Rightarrow> response" where
  "sample_net url =
     (if url = ascii ''../data/p/contacts_export_status.ndjson''
      then Response True (ascii ''{\"a\":1}'')
      else if url = ascii ''../data/p/contacts.ndjson'' then Response True (ascii ''{\"b\":2}'')
      else Response False (ascii ''Not Found''))"

definition empty_export_net :: "jstring \<Rightarrow> response" where
  "empty_export_net url =
     (if url = ascii ''../data/p/contacts_export_status.ndjson'' then Response True []
      else if url = ascii ''../data/p/contacts.ndjson'' then Response True (ascii ''{\"a\":1}'')
      else Response False (ascii ''Not Found''))"

text \<open>
  The third example of the specification: the self-test answers with status 500 and the
  body \<^verbatim>\<open>{"error":"auth failed","hint":"rotate token"}\<close>.
\<close>

definition failed_response :: response where
  "failed_response =
     Response False (ascii ''{\"error\":\"auth failed\",\"hint\":\"rotate token\"}'')"

text \<open>
  The property \<^verbatim>\<open>stack\<close> of an error is not part of the language standard. Engines that
  have it differ: V8 begins the text with the name and the message of the error,
  SpiderMonkey and JavaScriptCore give the call frames only. The second kind of engine:
\<close>

definition frames_engine :: engine where
  "frames_engine =
     sample_engine\<lparr>stack_text := (\<lambda>name message. ascii ''runTest@app.js:432:15'')\<rparr>"

section \<open>Properties of the log\<close>

lemma logLines_pushLog:
  "logLines (pushLog eng pg m l d w) =
     (let pushed = logLines w @ [logLine (time_text eng (clockReads w)) l m d]
      in if length pushed > 400 then tl pushed else pushed)"
  by (simp add: pushLog_def Let_def)

lemma clockReads_pushLog: "clockReads (pushLog eng pg m l d w) = Suc (clockReads w)"
  by (simp add: pushLog_def Let_def)

lemma pushLogs_snoc:
  "pushLogs eng pg (cs @ [(m, l, d)]) w = pushLog eng pg m l d (pushLogs eng pg cs w)"
  by (simp add: pushLogs_def)

lemma linesOf_snoc:
  "linesOf eng n (cs @ [(m, l, d)]) =
     linesOf eng n cs @ [logLine (time_text eng (n + length cs)) l m d]"
  by (induction cs arbitrary: n) auto

lemma length_linesOf: "length (linesOf eng n cs) = length cs"
  by (induction cs arbitrary: n) auto

text \<open>Appending to the last 400 of \<open>k\<close> lines and shifting when over leaves the last 400 of \<open>k + 1\<close>.\<close>

lemma keep_last_400:
  assumes "length xs = k"
  shows "(let pushed = drop (k - 400) xs @ [x]
          in if length pushed > 400 then tl pushed else pushed)
         = drop (Suc k - 400) (xs @ [x])"
proof (cases "k < 400")
  case True
  with assms show ?thesis by (simp add: Let_def)
next
  case False
  define ys where "ys = drop (k - 400) xs"
  from False assms have len: "length ys = 400" by (simp add: ys_def)
  then have ne: "ys \<noteq> []" by auto
  from False have suc: "Suc k - 400 = Suc (k - 400)" by simp
  have "tl ys = drop (Suc (k - 400)) xs" by (simp add: ys_def drop_Suc tl_drop)
  with ne have "tl (ys @ [x]) = drop (Suc (k - 400)) xs @ [x]" by simp
  moreover have "drop (Suc k - 400) (xs @ [x]) = drop (Suc (k - 400)) xs @ [x]"
  proof -
    have gen: "n \<le> length xs \<Longrightarrow> drop n (xs @ [x]) = drop n xs @ [x]" for n by simp
    from False assms have "Suc (k - 400) \<le> length xs" by simp
    from gen [OF this] show ?thesis unfolding suc .
  qed
  ultimately show ?thesis using len by (simp add: Let_def ys_def [symmetric])
qed

lemma pushLogs_run:
  "logLines w = [] \<Longrightarrow>
     logLines (pushLogs eng pg cs w) = drop (length cs - 400) (linesOf eng (clockReads w) cs)
     \<and> clockReads (pushLogs eng pg cs w) = clockReads w + length cs"
proof (induction cs rule: rev_induct)
  case Nil
  then show ?case by (simp add: pushLogs_def)
next
  case (snoc c cs)
  obtain m l d where c: "c = (m, l, d)" by (cases c) auto
  from snoc have ih: "logLines (pushLogs eng pg cs w) =
      drop (length cs - 400) (linesOf eng (clockReads w) cs)"
    and ck: "clockReads (pushLogs eng pg cs w) = clockReads w + length cs" by auto
  show ?case
    unfolding c pushLogs_snoc logLines_pushLog clockReads_pushLog ih ck linesOf_snoc
    using keep_last_400[of "linesOf eng (clockReads w) cs" "length cs"]
    by (simp add: length_linesOf)
qed

text \<open>
  C5. Every call of \<^verbatim>\<open>pushLog\<close> on a buffer of at most 400 lines leaves at most 400
  lines, and on a full buffer it drops the oldest line and appends the new one. Run from
  the initial state, the buffer holds the last 400 lines written; after 401 calls these
  are the lines of the calls 2 to 401, so the first line is gone and the second is the
  oldest.
\<close>

theorem pushLog_ring_buffer:
  assumes "length (logLines w) \<le> 400"
  shows "length (logLines (pushLog eng pg m l d w)) \<le> 400
     \<and> (length (logLines w) = 400 \<longrightarrow>
          logLines (pushLog eng pg m l d w) =
            tl (logLines w) @ [logLine (time_text eng (clockReads w)) l m d])
     \<and> (length (logLines w) < 400 \<longrightarrow>
          logLines (pushLog eng pg m l d w) =
            logLines w @ [logLine (time_text eng (clockReads w)) l m d])
     \<and> length (logLines (pushLogs eng pg cs initial_world)) \<le> 400
     \<and> logLines (pushLogs eng pg cs initial_world) = drop (length cs - 400) (linesOf eng 0 cs)
     \<and> (length cs = 401 \<longrightarrow>
          logLines (pushLogs eng pg cs initial_world) = tl (linesOf eng 0 cs)
          \<and> hd (logLines (pushLogs eng pg cs initial_world)) = linesOf eng 0 cs ! 1)"
proof -
  have step: "length (logLines (pushLog eng pg m l d w)) \<le> 400"
    using assms by (simp add: logLines_pushLog Let_def)
  have full: "length (logLines w) = 400 \<longrightarrow>
      logLines (pushLog eng pg m l d w) =
        tl (logLines w) @ [logLine (time_text eng (clockReads w)) l m d]"
    by (cases "logLines w") (simp_all add: logLines_pushLog Let_def)
  have room: "length (logLines w) < 400 \<longrightarrow>
      logLines (pushLog eng pg m l d w) =
        logLines w @ [logLine (time_text eng (clockReads w)) l m d]"
    by (simp add: logLines_pushLog Let_def)
  have run: "logLines (pushLogs eng pg cs initial_world) =
      drop (length cs - 400) (linesOf eng 0 cs)"
    using pushLogs_run [of initial_world eng pg cs] by (simp add: initial_world_def)
  have bound: "length (logLines (pushLogs eng pg cs initial_world)) \<le> 400"
    unfolding run by (simp add: length_linesOf)
  have last: "length cs = 401 \<longrightarrow>
      logLines (pushLogs eng pg cs initial_world) = tl (linesOf eng 0 cs)
      \<and> hd (logLines (pushLogs eng pg cs initial_world)) = linesOf eng 0 cs ! 1"
  proof
    assume n: "length cs = 401"
    then have "length cs - 400 = Suc 0" by simp
    then have eq: "logLines (pushLogs eng pg cs initial_world) = tl (linesOf eng 0 cs)"
      unfolding run by (simp add: drop_Suc)
    from n have "length (linesOf eng 0 cs) = 401" by (simp add: length_linesOf)
    then have "hd (tl (linesOf eng 0 cs)) = linesOf eng 0 cs ! 1"
      by (cases "linesOf eng 0 cs"; cases "tl (linesOf eng 0 cs)") auto
    with eq show "logLines (pushLogs eng pg cs initial_world) = tl (linesOf eng 0 cs)
      \<and> hd (logLines (pushLogs eng pg cs initial_world)) = linesOf eng 0 cs ! 1" by simp
  qed
  from step full room bound run last show ?thesis by blast
qed

theorem pushLog_ring_buffer_witness:
  "length (logLines (initial_world\<lparr>logLines := replicate 400 []\<rparr>)) = 400
   \<and> length (logLines (pushLog sample_engine sample_page (ascii ''x'') Info None
        (initial_world\<lparr>logLines := replicate 400 []\<rparr>))) \<le> 400
   \<and> logLines (pushLog sample_engine sample_page (ascii ''x'') Info None
        (initial_world\<lparr>logLines := replicate 400 []\<rparr>)) =
      replicate 399 [] @ [ascii ''[00:00:00] [INFO] x'']
   \<and> length (replicate 401 (ascii ''x'', Info, None :: jstring option)) = 401
   \<and> logLines (pushLogs sample_engine sample_page (replicate 401 (ascii ''x'', Info, None))
        initial_world) =
      tl (linesOf sample_engine 0 (replicate 401 (ascii ''x'', Info, None)))"
proof -
  let ?w = "initial_world\<lparr>logLines := replicate 400 []\<rparr>"
  let ?cs = "replicate 401 (ascii ''x'', Info, None :: jstring option)"
  have h: "length (logLines ?w) \<le> 400" by simp
  have full: "length (logLines ?w) = 400" by simp
  have n: "length ?cs = 401" by simp
  have c: "clockReads ?w = 0" by (simp add: initial_world_def)
  have t: "tl (logLines ?w) = replicate 399 []" by simp
  have line: "logLine (time_text sample_engine 0) Info (ascii ''x'') None =
      ascii ''[00:00:00] [INFO] x''"
    by (simp add: logLine_def sample_engine_def ascii_def)
  note inst = pushLog_ring_buffer [OF h, of sample_engine sample_page "ascii ''x''" Info None ?cs]
  from inst have a: "length (logLines (pushLog sample_engine sample_page (ascii ''x'') Info None ?w))
      \<le> 400" by blast
  from inst full have b: "logLines (pushLog sample_engine sample_page (ascii ''x'') Info None ?w) =
      tl (logLines ?w) @ [logLine (time_text sample_engine (clockReads ?w)) Info (ascii ''x'') None]"
    by blast
  from inst n have d: "logLines (pushLogs sample_engine sample_page ?cs initial_world) =
      tl (linesOf sample_engine 0 ?cs)" by blast
  from b have b': "logLines (pushLog sample_engine sample_page (ascii ''x'') Info None ?w) =
      replicate 399 [] @ [ascii ''[00:00:00] [INFO] x'']"
    unfolding t c line .
  show ?thesis by (intro conjI full a b' n d)
qed

section \<open>Properties of the parser\<close>

lemma pushLogs_Cons:
  "pushLogs eng pg ((m, l, d) # cs) w = pushLogs eng pg cs (pushLog eng pg m l d w)"
  by (simp add: pushLogs_def)

lemma clockReads_pushLogs: "clockReads (pushLogs eng pg cs w) = clockReads w + length cs"
proof (induction cs arbitrary: w)
  case Nil
  show ?case by (simp add: pushLogs_def)
next
  case (Cons c cs)
  obtain m l d where c: "c = (m, l, d)" by (cases c) auto
  show ?case unfolding c pushLogs_Cons Cons by (simp add: clockReads_pushLog)
qed

text \<open>
  The loop over the lines only ever calls \<^verbatim>\<open>pushLog\<close> with level \<^verbatim>\<open>error\<close>, and every
  line that is not blank either adds a value to \<open>out\<close> or makes one such call.
\<close>

lemma parseLines_counts:
  "\<exists>calls. snd (parseLines eng pg lab i ls (out, w)) = pushLogs eng pg calls w
      \<and> list_all (\<lambda>(m, l, d). l = Error) calls
      \<and> length (fst (parseLines eng pg lab i ls (out, w))) + length calls
          = length out + length (filter (\<lambda>l. trim l \<noteq> []) ls)"
proof (induction ls arbitrary: i out w)
  case Nil
  have "snd (parseLines eng pg lab i [] (out, w)) = pushLogs eng pg [] w"
    by (simp add: pushLogs_def)
  then show ?case by (intro exI [of _ "[]"]) simp
next
  case (Cons line rest)
  show ?case
  proof (cases "trim line = []")
    case True
    with Cons [of "Suc i" out w] show ?thesis by (simp add: Let_def)
  next
    case False
    show ?thesis
    proof (cases "json_parse eng (trim line)")
      case (Inr v)
      from Cons [of "Suc i" "out @ [v]" w] False Inr show ?thesis by (simp add: Let_def)
    next
      case (Inl msg)
      let ?m = "lineErrorMessage lab"
      let ?d = "Some (ascii ''Linha '' @ decimal (i + 1) @ ascii '': '' @ msg)"
      let ?w = "pushLog eng pg ?m Error ?d w"
      from Cons [of "Suc i" out ?w] obtain calls where
        c: "snd (parseLines eng pg lab (Suc i) rest (out, ?w)) = pushLogs eng pg calls ?w"
          "list_all (\<lambda>(m, l, d). l = Error) calls"
          "length (fst (parseLines eng pg lab (Suc i) rest (out, ?w))) + length calls
             = length out + length (filter (\<lambda>l. trim l \<noteq> []) rest)"
        by blast
      have step: "parseLines eng pg lab i (line # rest) (out, w) =
          parseLines eng pg lab (Suc i) rest (out, ?w)"
        using False Inl by (simp add: Let_def)
      show ?thesis
        unfolding step
        using c False by (intro exI [of _ "(?m, Error, ?d) # calls"]) (simp add: pushLogs_Cons)
    qed
  qed
qed

text \<open>
  C2. \<^verbatim>\<open>parseNDJSON\<close> is a total function of its text: the one call that can throw,
  \<^verbatim>\<open>JSON.parse\<close>, throws inside the \<^verbatim>\<open>try\<close>. All it does to the state is a run of
  \<^verbatim>\<open>pushLog\<close> calls of level \<^verbatim>\<open>error\<close> (each reads the clock once, so their number is
  the number of clock readings), and the length of its result plus the number of these
  calls is the number of lines that are not blank. For an absent or empty text it
  returns the empty array and leaves the state as it is.
\<close>

theorem parseNDJSON_counts:
  "(\<exists>calls. snd (parseNDJSON eng pg text lab w) = pushLogs eng pg calls w
       \<and> list_all (\<lambda>(m, l, d). l = Error) calls
       \<and> clockReads (snd (parseNDJSON eng pg text lab w)) = clockReads w + length calls
       \<and> length (fst (parseNDJSON eng pg text lab w)) + length calls
           = length (nonBlankLines text))
   \<and> (text = None \<or> text = Some [] \<longrightarrow> parseNDJSON eng pg text lab w = ([], w))"
proof -
  have none: "text = None \<or> text = Some [] \<longrightarrow> parseNDJSON eng pg text lab w = ([], w)"
    by (auto simp: parseNDJSON_def)
  have "\<exists>calls. snd (parseNDJSON eng pg text lab w) = pushLogs eng pg calls w
       \<and> list_all (\<lambda>(m, l, d). l = Error) calls
       \<and> length (fst (parseNDJSON eng pg text lab w)) + length calls
           = length (nonBlankLines text)"
  proof (cases "text = None \<or> text = Some []")
    case True
    then have "parseNDJSON eng pg text lab w = ([], w)" using none by simp
    moreover from True have "nonBlankLines text = []"
      by (auto simp: nonBlankLines_def splitLines_def trim_def)
    ultimately show ?thesis by (intro exI [of _ "[]"]) (simp add: pushLogs_def)
  next
    case False
    then obtain t where t: "text = Some t" "t \<noteq> []" by (cases "text") auto
    then have "parseNDJSON eng pg text lab w = parseLines eng pg lab 0 (splitLines t) ([], w)"
      by (simp add: parseNDJSON_def)
    moreover from t have "nonBlankLines text = filter (\<lambda>l. trim l \<noteq> []) (splitLines t)"
      by (simp add: nonBlankLines_def)
    ultimately show ?thesis
      using parseLines_counts [of eng pg lab 0 "splitLines t" "[]" w] by simp
  qed
  then obtain calls where
    c: "snd (parseNDJSON eng pg text lab w) = pushLogs eng pg calls w"
       "list_all (\<lambda>(m, l, d). l = Error) calls"
       "length (fst (parseNDJSON eng pg text lab w)) + length calls = length (nonBlankLines text)"
    by blast
  from c(1) have "clockReads (snd (parseNDJSON eng pg text lab w)) = clockReads w + length calls"
    by (simp add: clockReads_pushLogs)
  with c none show ?thesis by blast
qed

lemma scenario_values:
  "fst (parseNDJSON sample_engine sample_page (Some scenario_text) None initial_world) =
     [JObj [(ascii ''a'', JNum (ascii ''1''))], JObj [(ascii ''b'', JNum (ascii ''2''))]]"
  by (simp add: parseNDJSON_def scenario_text_def splitLines_def ascii_def trim_def
      isTrimmed_def sample_engine_def sample_texts_def Let_def)

lemma scenario_log:
  "logLines (snd (parseNDJSON sample_engine sample_page (Some scenario_text) None initial_world)) =
     [ascii ''[00:00:00] [ERROR] N'' @ [0xE3] @ ascii ''o foi poss'' @ [0xED]
        @ ascii ''vel interpretar uma linha em NDJSON'' @ [0x0A]
        @ ascii ''Linha 2: Unexpected token'']"
  by (simp add: parseNDJSON_def scenario_text_def splitLines_def ascii_def trim_def
      isTrimmed_def sample_engine_def sample_texts_def Let_def pushLog_def logLine_def
      lineErrorMessage_def initial_world_def decimal.simps)

lemma scenario_lines: "length (nonBlankLines (Some scenario_text)) = 3"
  by (simp add: nonBlankLines_def scenario_text_def splitLines_def ascii_def trim_def
      isTrimmed_def)

theorem parseNDJSON_counts_witness:
  "length (fst (parseNDJSON sample_engine sample_page (Some scenario_text) None initial_world)) = 2
   \<and> clockReads (snd (parseNDJSON sample_engine sample_page (Some scenario_text) None
        initial_world)) = 1
   \<and> length (nonBlankLines (Some scenario_text)) = 3
   \<and> parseNDJSON sample_engine sample_page None None initial_world = ([], initial_world)"
proof -
  let ?r = "parseNDJSON sample_engine sample_page (Some scenario_text) None initial_world"
  from parseNDJSON_counts [of sample_engine sample_page "Some scenario_text" None initial_world]
  obtain calls :: "(jstring \<times> level \<times> jstring option) list" where
    c: "clockReads (snd ?r) = clockReads initial_world + length calls"
       "length (fst ?r) + length calls = length (nonBlankLines (Some scenario_text))"
    by blast
  have two: "length (fst ?r) = 2" by (simp add: scenario_values)
  from c(2) two have "length calls = 1" by (simp add: scenario_lines)
  with c(1) have one: "clockReads (snd ?r) = 1" by (simp add: initial_world_def)
  from parseNDJSON_counts [of sample_engine sample_page None None initial_world]
  have none: "parseNDJSON sample_engine sample_page None None initial_world = ([], initial_world)"
    by blast
  show ?thesis by (intro conjI two one scenario_lines none)
qed

section \<open>Properties of \<^verbatim>\<open>applyData\<close>\<close>

lemma appState_pushLog: "appState (pushLog eng pg m l d w) = appState w"
  by (simp add: appState_def pushLog_def Let_def)

lemma appState_updateDataTable: "appState (updateDataTable eng pg w) = appState w"
  by (simp add: appState_def updateDataTable_def Let_def)

lemma appState_refreshUI: "appState (snd (refreshUI eng pg w)) = appState w"
  by (simp add: refreshUI_def appState_updateDataTable split: completion.splits)

text \<open>Whether \<^verbatim>\<open>refreshUI\<close> throws or not, the state after \<^verbatim>\<open>applyData\<close> is the one assigned.\<close>

lemma appState_applyData:
  "appState (snd (applyData eng pg payload lab w)) =
     appState (reselect (w\<lparr>summary := payloadSummary eng payload,
                 contacts := payloadArray eng payload (ascii ''contacts''),
                 chats := payloadArray eng payload (ascii ''chats''),
                 messages := payloadArray eng payload (ascii ''messages'')\<rparr>))"
proof -
  let ?w2 = "reselect (w\<lparr>summary := payloadSummary eng payload,
                 contacts := payloadArray eng payload (ascii ''contacts''),
                 chats := payloadArray eng payload (ascii ''chats''),
                 messages := payloadArray eng payload (ascii ''messages'')\<rparr>)"
  obtain c w3 where r: "refreshUI eng pg ?w2 = (c, w3)"
    by (cases "refreshUI eng pg ?w2")
  then have "appState w3 = appState ?w2"
    using appState_refreshUI [of eng pg ?w2] by simp
  moreover have "appState (snd (applyData eng pg payload lab w)) = appState w3"
    using r unfolding applyData_def Let_def
    by (cases c) (simp_all add: appState_pushLog)
  ultimately show ?thesis by simp
qed

lemma stored_after_applyData:
  "summary (snd (applyData eng pg payload lab w)) = payloadSummary eng payload"
  "contacts (snd (applyData eng pg payload lab w)) = payloadArray eng payload (ascii ''contacts'')"
  "chats (snd (applyData eng pg payload lab w)) = payloadArray eng payload (ascii ''chats'')"
  "messages (snd (applyData eng pg payload lab w)) = payloadArray eng payload (ascii ''messages'')"
  using appState_applyData [of eng pg payload lab w]
  by (simp_all add: appState_def reselect_def)

text \<open>
  C1. After \<^verbatim>\<open>applyData\<close>, whether it returns or \<^verbatim>\<open>refreshUI\<close> throws, the summary and the
  three arrays of the state are functions of the payload alone: the summary is
  \<^verbatim>\<open>payload?.summary\<close>, or \<^verbatim>\<open>null\<close> when that is \<^verbatim>\<open>undefined\<close> or \<^verbatim>\<open>null\<close>, and each
  array is the payload's field when it is an array and empty otherwise (so all are empty
  for a \<^verbatim>\<open>null\<close> payload). Two calls with the same payload on any two states leave the
  same summary and arrays.
\<close>

theorem applyData_replaces_snapshot:
  "summary (snd (applyData eng pg payload lab w)) = payloadSummary eng payload
   \<and> contacts (snd (applyData eng pg payload lab w)) = payloadArray eng payload (ascii ''contacts'')
   \<and> chats (snd (applyData eng pg payload lab w)) = payloadArray eng payload (ascii ''chats'')
   \<and> messages (snd (applyData eng pg payload lab w)) = payloadArray eng payload (ascii ''messages'')
   \<and> (nullish (optionalRead eng payload (ascii ''summary'')) \<longrightarrow> payloadSummary eng payload = JNull)
   \<and> (\<not> nullish (optionalRead eng payload (ascii ''summary'')) \<longrightarrow>
        payloadSummary eng payload = optionalRead eng payload (ascii ''summary''))
   \<and> (\<forall>k xs. optionalRead eng payload k = JArr xs \<longrightarrow> payloadArray eng payload k = xs)
   \<and> (\<forall>k. \<not> isArray (optionalRead eng payload k) \<longrightarrow> payloadArray eng payload k = [])
   \<and> (nullish payload \<longrightarrow> payloadSummary eng payload = JNull \<and> (\<forall>k. payloadArray eng payload k = []))
   \<and> (\<forall>pg' lab' w'.
        summary (snd (applyData eng pg' payload lab' w')) = summary (snd (applyData eng pg payload lab w))
        \<and> contacts (snd (applyData eng pg' payload lab' w')) = contacts (snd (applyData eng pg payload lab w))
        \<and> chats (snd (applyData eng pg' payload lab' w')) = chats (snd (applyData eng pg payload lab w))
        \<and> messages (snd (applyData eng pg' payload lab' w')) = messages (snd (applyData eng pg payload lab w)))"
proof -
  have arr: "\<forall>k xs. optionalRead eng payload k = JArr xs \<longrightarrow> payloadArray eng payload k = xs"
    by (simp add: payloadArray_def)
  have notarr: "\<forall>k. \<not> isArray (optionalRead eng payload k) \<longrightarrow> payloadArray eng payload k = []"
  proof (intro allI impI)
    fix k assume "\<not> isArray (optionalRead eng payload k)"
    then show "payloadArray eng payload k = []"
      by (cases "optionalRead eng payload k") (simp_all add: payloadArray_def)
  qed
  have nul: "nullish payload \<longrightarrow>
      payloadSummary eng payload = JNull \<and> (\<forall>k. payloadArray eng payload k = [])"
    by (simp add: payloadSummary_def payloadArray_def optionalRead_def)
  have s1: "nullish (optionalRead eng payload (ascii ''summary'')) \<longrightarrow>
      payloadSummary eng payload = JNull"
    by (simp add: payloadSummary_def Let_def)
  have s2: "\<not> nullish (optionalRead eng payload (ascii ''summary'')) \<longrightarrow>
      payloadSummary eng payload = optionalRead eng payload (ascii ''summary'')"
    by (simp add: payloadSummary_def Let_def)
  show ?thesis
    by (intro conjI arr notarr nul s1 s2 allI) (simp_all add: stored_after_applyData)
qed

lemma sample_payload_fields:
  "payloadSummary sample_engine sample_payload = JObj [(ascii ''ok'', JBool True)]"
  "payloadArray sample_engine sample_payload (ascii ''contacts'') = []"
  "payloadArray sample_engine sample_payload (ascii ''chats'') =
     [JObj [(ascii ''id'', JNum (ascii ''1''))], JObj [(ascii ''id'', JNum (ascii ''2''))],
      JObj [(ascii ''id'', JNum (ascii ''3''))]]"
  "payloadArray sample_engine sample_payload (ascii ''messages'') = []"
  by (simp_all add: payloadSummary_def payloadArray_def optionalRead_def propertyOf_def
      sample_payload_def sample_engine_def ascii_def)

theorem applyData_replaces_snapshot_witness:
  "summary (snd (applyData sample_engine sample_page sample_payload (ascii ''Teste'')
       (initial_world\<lparr>summary := JStr (ascii ''old''), contacts := [JNull], messages := [JNull]\<rparr>)))
     = JObj [(ascii ''ok'', JBool True)]
   \<and> contacts (snd (applyData sample_engine sample_page sample_payload (ascii ''Teste'')
       (initial_world\<lparr>summary := JStr (ascii ''old''), contacts := [JNull], messages := [JNull]\<rparr>)))
     = []
   \<and> messages (snd (applyData sample_engine sample_page sample_payload (ascii ''Teste'')
       (initial_world\<lparr>summary := JStr (ascii ''old''), contacts := [JNull], messages := [JNull]\<rparr>)))
     = []
   \<and> nullish JNull
   \<and> payloadArray sample_engine JNull (ascii ''contacts'') = []"
proof -
  let ?w = "initial_world\<lparr>summary := JStr (ascii ''old''), contacts := [JNull], messages := [JNull]\<rparr>"
  note a = applyData_replaces_snapshot [of sample_engine sample_page sample_payload
      "ascii ''Teste''" ?w]
  note b = applyData_replaces_snapshot [of sample_engine sample_page JNull "ascii ''Teste''" ?w]
  have n: "nullish JNull" by simp
  from a have 1: "summary (snd (applyData sample_engine sample_page sample_payload
      (ascii ''Teste'') ?w)) = JObj [(ascii ''ok'', JBool True)]"
    by (simp add: sample_payload_fields)
  from a have 2: "contacts (snd (applyData sample_engine sample_page sample_payload
      (ascii ''Teste'') ?w)) = []"
    by (simp add: sample_payload_fields)
  from a have 3: "messages (snd (applyData sample_engine sample_page sample_payload
      (ascii ''Teste'') ?w)) = []"
    by (simp add: sample_payload_fields)
  from b n have 4: "payloadArray sample_engine JNull (ascii ''contacts'') = []" by blast
  show ?thesis by (intro conjI 1 2 3 4 n)
qed

text \<open>
  C3. After \<^verbatim>\<open>applyData\<close>: when the dataset of the key that was active is not empty, the
  active key is the same; when it is empty, the active key is the first of
  \<^verbatim>\<open>contacts\<close>, \<^verbatim>\<open>chats\<close>, \<^verbatim>\<open>messages\<close> whose dataset is not empty, and \<^verbatim>\<open>contacts\<close> when
  all three are empty.
\<close>

theorem applyData_reselects_active:
  "(records (snd (applyData eng pg payload lab w)) (dataset w) \<noteq> [] \<longrightarrow>
      dataset (snd (applyData eng pg payload lab w)) = dataset w)
   \<and> (records (snd (applyData eng pg payload lab w)) (dataset w) = [] \<longrightarrow>
        (contacts (snd (applyData eng pg payload lab w)) \<noteq> [] \<longrightarrow>
           dataset (snd (applyData eng pg payload lab w)) = Contacts)
        \<and> (contacts (snd (applyData eng pg payload lab w)) = []
            \<and> chats (snd (applyData eng pg payload lab w)) \<noteq> [] \<longrightarrow>
           dataset (snd (applyData eng pg payload lab w)) = Chats)
        \<and> (contacts (snd (applyData eng pg payload lab w)) = []
            \<and> chats (snd (applyData eng pg payload lab w)) = []
            \<and> messages (snd (applyData eng pg payload lab w)) \<noteq> [] \<longrightarrow>
           dataset (snd (applyData eng pg payload lab w)) = Messages)
        \<and> (contacts (snd (applyData eng pg payload lab w)) = []
            \<and> chats (snd (applyData eng pg payload lab w)) = []
            \<and> messages (snd (applyData eng pg payload lab w)) = [] \<longrightarrow>
           dataset (snd (applyData eng pg payload lab w)) = Contacts))"
proof -
  let ?w1 = "w\<lparr>summary := payloadSummary eng payload,
                 contacts := payloadArray eng payload (ascii ''contacts''),
                 chats := payloadArray eng payload (ascii ''chats''),
                 messages := payloadArray eng payload (ascii ''messages'')\<rparr>"
  let ?w' = "snd (applyData eng pg payload lab w)"
  have st: "appState ?w' = appState (reselect ?w1)" by (rule appState_applyData)
  have recs: "records ?w' d = records ?w1 d" for d
    using st by (cases d) (simp_all add: appState_def reselect_def)
  have ds: "dataset ?w' = dataset (reselect ?w1)" using st by (simp add: appState_def)
  have c: "contacts ?w' = contacts ?w1" "chats ?w' = chats ?w1" "messages ?w' = messages ?w1"
    using recs [of Contacts] recs [of Chats] recs [of Messages] by simp_all
  have d1: "dataset ?w1 = dataset w" by simp
  show ?thesis
    unfolding ds recs c
    by (cases "dataset w") (auto simp: reselect_def DATASETS_def)
qed

theorem applyData_reselects_active_witness:
  "records (snd (applyData sample_engine sample_page sample_payload (ascii ''Teste'')
       (initial_world\<lparr>dataset := Messages\<rparr>))) Messages = []
   \<and> contacts (snd (applyData sample_engine sample_page sample_payload (ascii ''Teste'')
       (initial_world\<lparr>dataset := Messages\<rparr>))) = []
   \<and> chats (snd (applyData sample_engine sample_page sample_payload (ascii ''Teste'')
       (initial_world\<lparr>dataset := Messages\<rparr>))) \<noteq> []
   \<and> dataset (snd (applyData sample_engine sample_page sample_payload (ascii ''Teste'')
       (initial_world\<lparr>dataset := Messages\<rparr>))) = Chats"
proof -
  let ?w = "initial_world\<lparr>dataset := Messages\<rparr>"
  let ?w' = "snd (applyData sample_engine sample_page sample_payload (ascii ''Teste'') ?w)"
  have m: "records ?w' (dataset ?w) = []"
    by (simp add: stored_after_applyData sample_payload_fields)
  have m': "records ?w' Messages = []"
    by (simp add: stored_after_applyData sample_payload_fields)
  have c: "contacts ?w' = []" by (simp add: stored_after_applyData sample_payload_fields)
  have h: "chats ?w' \<noteq> []" by (simp add: stored_after_applyData sample_payload_fields)
  from applyData_reselects_active [of sample_engine sample_page sample_payload
      "ascii ''Teste''" ?w] m c h
  have "dataset ?w' = Chats" by blast
  with m' c h show ?thesis by blast
qed

section \<open>Properties of escaping and of the table\<close>

lemma replaceAll_Nil: "replaceAll c r [] = []"
  by (simp add: replaceAll_def)

lemma replaceAll_Cons: "replaceAll c r (x # xs) = (if x = c then r else [x]) @ replaceAll c r xs"
  by (simp add: replaceAll_def)

lemma replaceAll_append: "replaceAll c r (a @ b) = replaceAll c r a @ replaceAll c r b"
  by (simp add: replaceAll_def)

lemma escapeHtml_Nil: "escapeHtml [] = []"
  by (simp add: escapeHtml_def replaceAll_Nil)

text \<open>
  The five passes act on each character by itself: a later pass does not touch what an
  earlier one wrote, since no character reference contains a character replaced later.
\<close>

lemma escapeHtml_Cons: "escapeHtml (x # xs) = escapeUnit x @ escapeHtml xs"
  by (simp add: escapeHtml_def escapeUnit_def replaceAll_Cons replaceAll_append
      replaceAll_Nil ascii_def)

lemma escapeHtml_escaped: "escapeHtml s = escaped s"
  by (induction s) (simp_all add: escapeHtml_Nil escapeHtml_Cons escaped_def)

lemma escapeUnit_no_markup: "set (escapeUnit c) \<inter> {0x3C, 0x3E, 0x22, 0x27} = {}"
  by (simp add: escapeUnit_def ascii_def)

lemma escaped_no_markup: "set (escaped s) \<inter> {0x3C, 0x3E, 0x22, 0x27} = {}"
  using escapeUnit_no_markup by (induction s) (auto simp: escaped_def)

lemma active_hasAnyRecords: "records w (dataset w) \<noteq> [] \<Longrightarrow> hasAnyRecords w"
  by (cases "dataset w") (auto simp: hasAnyRecords_def DATASETS_def)

lemma formatValue_shapes:
  "formatValue eng v = placeholder \<or> formatValue eng v = ascii ''true''
   \<or> formatValue eng v = ascii ''false''
   \<or> (\<exists>t. formatValue eng v = escaped t)
   \<or> (\<exists>t. formatValue eng v = ascii ''<code>'' @ escaped t @ ascii ''</code>'')"
  by (cases v) (auto simp: formatValue_def escapeHtml_escaped ascii_def split: option.splits)

lemma rendered_table:
  assumes "has_dataTable pg" "records w (dataset w) \<noteq> []"
  shows "theadHtml (updateDataTable eng pg w) =
           ascii ''<tr>'' @ concat (headerCells (records w (dataset w))) @ ascii ''</tr>''"
    and "tbodyHtml (updateDataTable eng pg w) = concat (rowsHtml eng (records w (dataset w)))"
    and "tableHidden (updateDataTable eng pg w) = False"
  using assms active_hasAnyRecords [OF assms(2)]
  by (simp_all add: updateDataTable_def Let_def)

lemma set_fold_setAdd: "set (fold setAdd ks cols) = set cols \<union> set ks"
  by (induction ks arbitrary: cols) (auto simp: setAdd_def)

lemma distinct_fold_setAdd: "distinct cols \<Longrightarrow> distinct (fold setAdd ks cols)"
  by (induction ks arbitrary: cols) (auto simp: setAdd_def)

lemma set_fold_columns:
  "set (fold (\<lambda>r cols. if isPlainObject r then fold setAdd (objectKeys r) cols else cols) recs acc)
     = set acc \<union> (\<Union>r \<in> {r \<in> set recs. isPlainObject r}. set (objectKeys r))"
  by (induction recs arbitrary: acc) (auto simp: set_fold_setAdd)

lemma distinct_fold_columns:
  "distinct acc \<Longrightarrow>
     distinct (fold (\<lambda>r cols. if isPlainObject r then fold setAdd (objectKeys r) cols else cols)
       recs acc)"
  by (induction recs arbitrary: acc) (auto simp: distinct_fold_setAdd)

lemma set_collectColumns:
  "set (collectColumns recs) = (\<Union>r \<in> {r \<in> set recs. isPlainObject r}. set (objectKeys r))"
  by (simp add: collectColumns_def set_fold_columns)

lemma distinct_collectColumns: "distinct (collectColumns recs)"
  by (simp add: collectColumns_def distinct_fold_columns)

lemma columnList_sorted_union:
  "columnList recs =
     sorted_list_of_set (\<Union>r \<in> {r \<in> set recs. isPlainObject r}. set (objectKeys r))"
proof -
  have "sorted_list_of_set (set (collectColumns recs)) = sort (remdups (collectColumns recs))"
    by (rule sorted_list_of_set_sort_remdups)
  then show ?thesis
    by (simp add: columnList_def set_collectColumns [symmetric] distinct_collectColumns
        distinct_remdups_id del: set_collectColumns)
qed

lemma sample_columns: "columnList sample_records = [ascii ''0'', ascii ''a'', ascii ''b'']"
  by (simp add: columnList_def collectColumns_def sample_records_def isPlainObject_def
      setAdd_def ascii_def)

lemma sample_array_row:
  "rowCells sample_engine (columnList sample_records) (JArr [JNum (ascii ''7''), JNum (ascii ''8'')])
     = [ascii ''<td>7</td>'', ascii ''<td>'' @ placeholder @ ascii ''</td>'',
        ascii ''<td>'' @ placeholder @ ascii ''</td>'']"
  unfolding sample_columns
  by (simp add: rowCells_def cellValue_def propertyOf_def formatValue_def escapeHtml_def
      replaceAll_def arrayIndex_def digitsValue_def decimal.simps sample_engine_def ascii_def)

lemma sample_object_row:
  "rowCells sample_engine (columnList sample_records)
       (JObj [(ascii ''b'', JStr (ascii ''<i>'')), (ascii ''0'', JStr (ascii ''x''))])
     = [ascii ''<td>x</td>'', ascii ''<td>'' @ placeholder @ ascii ''</td>'',
        ascii ''<td>&lt;i&gt;</td>'']"
  unfolding sample_columns
  by (simp add: rowCells_def cellValue_def propertyOf_def formatValue_def escapeHtml_def
      replaceAll_def sample_engine_def ascii_def)

text \<open>
  C4. \<^verbatim>\<open>escapeHtml\<close> replaces each ampersand, angle bracket and quote by its character
  reference and keeps every other character, so its result holds no angle bracket and no
  quote. A string in a cell is written escaped; an object or an array is written as its
  JSON text, escaped, between \<^verbatim>\<open><code>\<close> tags; every cell is the fixed placeholder, the
  word \<^verbatim>\<open>true\<close> or \<^verbatim>\<open>false\<close>, or escaped text (bare or between \<^verbatim>\<open><code>\<close> tags); every
  header cell is the escaped column name; and the table that \<^verbatim>\<open>updateDataTable\<close> writes
  is made of these header cells and cells, for every record and every column.
\<close>

theorem table_text_is_escaped:
  "escapeHtml t = escaped t
   \<and> set (escaped t) \<inter> {0x3C, 0x3E, 0x22, 0x27} = {}
   \<and> formatValue eng (JStr s) = escaped s
   \<and> formatValue eng (JObj kvs) =
        ascii ''<code>''
          @ escaped (case json_stringify eng (JObj kvs) of
                       Some u \<Rightarrow> u | None \<Rightarrow> toText eng (JObj kvs))
          @ ascii ''</code>''
   \<and> formatValue eng (JArr xs) =
        ascii ''<code>''
          @ escaped (case json_stringify eng (JArr xs) of
                       Some u \<Rightarrow> u | None \<Rightarrow> toText eng (JArr xs))
          @ ascii ''</code>''
   \<and> (formatValue eng v = placeholder \<or> formatValue eng v = ascii ''true''
        \<or> formatValue eng v = ascii ''false''
        \<or> (\<exists>u. formatValue eng v = escaped u)
        \<or> (\<exists>u. formatValue eng v = ascii ''<code>'' @ escaped u @ ascii ''</code>''))
   \<and> headerCells recs =
        map (\<lambda>col. ascii ''<th>'' @ escaped col @ ascii ''</th>'') (columnList recs)
   \<and> rowCells eng cols r =
        map (\<lambda>col. ascii ''<td>'' @ formatValue eng (cellValue eng r col) @ ascii ''</td>'') cols
   \<and> (has_dataTable pg \<and> records w (dataset w) \<noteq> [] \<longrightarrow>
        theadHtml (updateDataTable eng pg w) =
          ascii ''<tr>'' @ concat (headerCells (records w (dataset w))) @ ascii ''</tr>''
        \<and> tbodyHtml (updateDataTable eng pg w) =
          concat (map (\<lambda>r. ascii ''<tr>''
                         @ concat (rowCells eng (columnList (records w (dataset w))) r)
                         @ ascii ''</tr>'')
                    (records w (dataset w))))"
proof -
  have str: "formatValue eng (JStr s) = escaped s"
    by (simp add: formatValue_def escapeHtml_escaped ascii_def)
  have obj: "formatValue eng (JObj kvs) =
      ascii ''<code>''
        @ escaped (case json_stringify eng (JObj kvs) of
                     Some u \<Rightarrow> u | None \<Rightarrow> toText eng (JObj kvs))
        @ ascii ''</code>''"
    by (simp add: formatValue_def escapeHtml_escaped split: option.splits)
  have arr: "formatValue eng (JArr xs) =
      ascii ''<code>''
        @ escaped (case json_stringify eng (JArr xs) of
                     Some u \<Rightarrow> u | None \<Rightarrow> toText eng (JArr xs))
        @ ascii ''</code>''"
    by (simp add: formatValue_def escapeHtml_escaped split: option.splits)
  have hd: "headerCells recs =
      map (\<lambda>col. ascii ''<th>'' @ escaped col @ ascii ''</th>'') (columnList recs)"
    by (simp add: headerCells_def escapeHtml_escaped)
  have row: "rowCells eng cols r =
      map (\<lambda>col. ascii ''<td>'' @ formatValue eng (cellValue eng r col) @ ascii ''</td>'') cols"
    by (simp add: rowCells_def)
  have tab: "has_dataTable pg \<and> records w (dataset w) \<noteq> [] \<longrightarrow>
      theadHtml (updateDataTable eng pg w) =
        ascii ''<tr>'' @ concat (headerCells (records w (dataset w))) @ ascii ''</tr>''
      \<and> tbodyHtml (updateDataTable eng pg w) =
        concat (map (\<lambda>r. ascii ''<tr>''
                       @ concat (rowCells eng (columnList (records w (dataset w))) r)
                       @ ascii ''</tr>'')
                  (records w (dataset w)))"
    by (simp add: rendered_table rowsHtml_def)
  show ?thesis
    by (intro conjI escapeHtml_escaped escaped_no_markup str obj arr formatValue_shapes hd row tab)
qed

theorem table_text_is_escaped_witness:
  "has_dataTable sample_page
   \<and> records (initial_world\<lparr>contacts := sample_records\<rparr>)
        (dataset (initial_world\<lparr>contacts := sample_records\<rparr>)) \<noteq> []
   \<and> theadHtml (updateDataTable sample_engine sample_page
        (initial_world\<lparr>contacts := sample_records\<rparr>)) =
      ascii ''<tr><th>0</th><th>a</th><th>b</th></tr>''
   \<and> escapeHtml (ascii ''<a href=\"x\">Tom & Jerry's</a>'') =
      ascii ''&lt;a href=&quot;x&quot;&gt;Tom &amp; Jerry&#39;s&lt;/a&gt;''
   \<and> formatValue sample_engine (JObj [(ascii ''a'', JStr (ascii ''<b>''))]) =
      ascii ''<code>{&quot;a&quot;:&quot;&lt;b&gt;&quot;}</code>''"
proof -
  let ?w = "initial_world\<lparr>contacts := sample_records\<rparr>"
  have p: "has_dataTable sample_page" by (simp add: sample_page_def)
  have d: "dataset ?w = Contacts" by (simp add: initial_world_def)
  have rs: "records ?w (dataset ?w) = sample_records" by (simp add: initial_world_def)
  have r: "records ?w (dataset ?w) \<noteq> []" unfolding rs by (simp add: sample_records_def)
  note inst = table_text_is_escaped [of "ascii ''<a href=\"x\">Tom & Jerry's</a>''" sample_engine
      "[]" "[(ascii ''a'', JStr (ascii ''<b>''))]" "[]" JNull sample_records "[]" JNull
      sample_page ?w]
  from inst p r have "theadHtml (updateDataTable sample_engine sample_page ?w) =
      ascii ''<tr>'' @ concat (headerCells (records ?w (dataset ?w))) @ ascii ''</tr>''"
    by blast
  moreover from inst have "headerCells sample_records =
      map (\<lambda>col. ascii ''<th>'' @ escaped col @ ascii ''</th>'') (columnList sample_records)"
    by blast
  ultimately have th: "theadHtml (updateDataTable sample_engine sample_page ?w) =
      ascii ''<tr><th>0</th><th>a</th><th>b</th></tr>''"
    unfolding rs sample_columns by (simp add: escaped_def escapeUnit_def ascii_def)
  from inst have "escapeHtml (ascii ''<a href=\"x\">Tom & Jerry's</a>'') =
      escaped (ascii ''<a href=\"x\">Tom & Jerry's</a>'')" by blast
  then have e: "escapeHtml (ascii ''<a href=\"x\">Tom & Jerry's</a>'') =
      ascii ''&lt;a href=&quot;x&quot;&gt;Tom &amp; Jerry&#39;s&lt;/a&gt;''"
    by (simp add: escaped_def escapeUnit_def ascii_def)
  from inst have "formatValue sample_engine (JObj [(ascii ''a'', JStr (ascii ''<b>''))]) =
      ascii ''<code>''
        @ escaped (case json_stringify sample_engine (JObj [(ascii ''a'', JStr (ascii ''<b>''))]) of
                     Some u \<Rightarrow> u
                   | None \<Rightarrow> toText sample_engine (JObj [(ascii ''a'', JStr (ascii ''<b>''))]))
        @ ascii ''</code>''" by blast
  then have f: "formatValue sample_engine (JObj [(ascii ''a'', JStr (ascii ''<b>''))]) =
      ascii ''<code>{&quot;a&quot;:&quot;&lt;b&gt;&quot;}</code>''"
    by (simp add: sample_engine_def sample_texts_def escaped_def escapeUnit_def ascii_def)
  show ?thesis by (intro conjI p r th e f)
qed

lemma sorted_columnList: "sorted (columnList recs)"
  by (simp add: columnList_def)

lemma distinct_columnList: "distinct (columnList recs)"
  by (simp add: columnList_def distinct_collectColumns)

text \<open>
  C6. The column list is the sorted list, without repetition, of the union of the keys
  of the records that pass the test for a plain object; an object passes it and gives its
  keys, and an array, \<^verbatim>\<open>null\<close>, a string, a number and a boolean do not pass it. There is
  one header cell for each column, in this order, and these cells are the header row that
  \<^verbatim>\<open>updateDataTable\<close> writes for an active dataset that is not empty.
\<close>

theorem columns_are_sorted_union_of_keys:
  "columnList recs =
     sorted_list_of_set (\<Union>r \<in> {r \<in> set recs. isPlainObject r}. set (objectKeys r))
   \<and> sorted (columnList recs) \<and> distinct (columnList recs)
   \<and> set (columnList recs) = (\<Union>r \<in> {r \<in> set recs. isPlainObject r}. set (objectKeys r))
   \<and> isPlainObject (JObj kvs) \<and> objectKeys (JObj kvs) = map fst kvs
   \<and> \<not> isPlainObject (JArr xs) \<and> \<not> isPlainObject JNull \<and> \<not> isPlainObject JUndefined
   \<and> \<not> isPlainObject (JStr s) \<and> \<not> isPlainObject (JNum n) \<and> \<not> isPlainObject (JBool b)
   \<and> length (headerCells recs) = length (columnList recs)
   \<and> headerCells recs =
        map (\<lambda>col. ascii ''<th>'' @ escapeHtml col @ ascii ''</th>'') (columnList recs)
   \<and> (has_dataTable pg \<and> records w (dataset w) \<noteq> [] \<longrightarrow>
        theadHtml (updateDataTable eng pg w) =
          ascii ''<tr>'' @ concat (headerCells (records w (dataset w))) @ ascii ''</tr>'')"
proof -
  have st: "set (columnList recs) =
      (\<Union>r \<in> {r \<in> set recs. isPlainObject r}. set (objectKeys r))"
    by (simp add: columnList_def set_collectColumns)
  have plain: "isPlainObject (JObj kvs)" "\<not> isPlainObject (JArr xs)" "\<not> isPlainObject JNull"
    "\<not> isPlainObject JUndefined" "\<not> isPlainObject (JStr s)" "\<not> isPlainObject (JNum n)"
    "\<not> isPlainObject (JBool b)"
    by (simp_all add: isPlainObject_def ascii_def)
  have keys: "objectKeys (JObj kvs) = map fst kvs" by simp
  have len: "length (headerCells recs) = length (columnList recs)"
    by (simp add: headerCells_def)
  have cells: "headerCells recs =
      map (\<lambda>col. ascii ''<th>'' @ escapeHtml col @ ascii ''</th>'') (columnList recs)"
    by (simp add: headerCells_def)
  have tab: "has_dataTable pg \<and> records w (dataset w) \<noteq> [] \<longrightarrow>
      theadHtml (updateDataTable eng pg w) =
        ascii ''<tr>'' @ concat (headerCells (records w (dataset w))) @ ascii ''</tr>''"
    by (simp add: rendered_table)
  show ?thesis
    by (intro conjI columnList_sorted_union sorted_columnList distinct_columnList st plain keys
        len cells tab)
qed

theorem columns_are_sorted_union_of_keys_witness:
  "has_dataTable sample_page
   \<and> records (initial_world\<lparr>chats := sample_records, dataset := Chats\<rparr>)
        (dataset (initial_world\<lparr>chats := sample_records, dataset := Chats\<rparr>)) \<noteq> []
   \<and> columnList sample_records = [ascii ''0'', ascii ''a'', ascii ''b'']
   \<and> theadHtml (updateDataTable sample_engine sample_page
        (initial_world\<lparr>chats := sample_records, dataset := Chats\<rparr>)) =
      ascii ''<tr><th>0</th><th>a</th><th>b</th></tr>''"
proof -
  let ?w = "initial_world\<lparr>chats := sample_records, dataset := Chats\<rparr>"
  have p: "has_dataTable sample_page" by (simp add: sample_page_def)
  have rs: "records ?w (dataset ?w) = sample_records" by simp
  have r: "records ?w (dataset ?w) \<noteq> []" unfolding rs by (simp add: sample_records_def)
  note inst = columns_are_sorted_union_of_keys [of sample_records "[]" "[]" "[]" "[]" True
      sample_page ?w sample_engine]
  from inst p r have "theadHtml (updateDataTable sample_engine sample_page ?w) =
      ascii ''<tr>'' @ concat (headerCells (records ?w (dataset ?w))) @ ascii ''</tr>''"
    by blast
  moreover from inst have "headerCells sample_records =
      map (\<lambda>col. ascii ''<th>'' @ escapeHtml col @ ascii ''</th>'') (columnList sample_records)"
    by blast
  ultimately have th: "theadHtml (updateDataTable sample_engine sample_page ?w) =
      ascii ''<tr><th>0</th><th>a</th><th>b</th></tr>''"
    unfolding rs sample_columns by (simp add: escapeHtml_def replaceAll_def ascii_def)
  show ?thesis by (intro conjI p r sample_columns th)
qed

text \<open>
  The test \<^verbatim>\<open>typeof value === 'object'\<close> comes before the test \<^verbatim>\<open>value instanceof Date\<close>
  and holds of every \<^verbatim>\<open>Date\<close>, so the branch for a \<^verbatim>\<open>Date\<close> is never taken: were a
  \<^verbatim>\<open>Date\<close> passed to \<^verbatim>\<open>formatValue\<close>, it would be written by the rule for objects.
\<close>

lemma formatValue_Date_by_object_rule:
  "formatValue eng (JDate stamp) =
     ascii ''<code>''
       @ escapeHtml (case json_stringify eng (JDate stamp) of
                       Some t \<Rightarrow> t | None \<Rightarrow> object_text eng (JDate stamp))
       @ ascii ''</code>''"
  by (simp add: formatValue_def split: option.splits)

text \<open>
  C10, as the code has it. The table has one row for each record and each row has one
  cell for each column, as many as the header has. A cell holds the placeholder when
  the record is falsy or when \<^verbatim>\<open>record[col]\<close> is \<^verbatim>\<open>null\<close> or \<^verbatim>\<open>undefined\<close>; for a plain
  object without the key this is the case when the object inherits no property of that
  name. Any other cell holds the formatted value of \<^verbatim>\<open>record[col]\<close>, which an array or a
  string has for an index and for \<^verbatim>\<open>length\<close>.
\<close>

theorem rows_have_one_cell_per_column:
  "length (rowsHtml eng recs) = length recs
   \<and> rowsHtml eng recs =
        map (\<lambda>r. ascii ''<tr>'' @ concat (rowCells eng (columnList recs) r) @ ascii ''</tr>'') recs
   \<and> length (rowCells eng (columnList recs) r) = length (columnList recs)
   \<and> length (rowCells eng (columnList recs) r) = length (headerCells recs)
   \<and> (\<forall>i. i < length (columnList recs) \<longrightarrow>
        rowCells eng (columnList recs) r ! i =
          ascii ''<td>'' @ formatValue eng (cellValue eng r (columnList recs ! i)) @ ascii ''</td>'')
   \<and> (\<forall>col. \<not> truthy r \<or> nullish (propertyOf eng r col) \<longrightarrow>
        formatValue eng (cellValue eng r col) = placeholder)
   \<and> (\<forall>col. map_of kvs col = None \<and> nullish (inherited eng (JObj kvs) col) \<longrightarrow>
        formatValue eng (cellValue eng (JObj kvs) col) = placeholder)
   \<and> (\<forall>col. truthy r \<and> \<not> nullish (propertyOf eng r col) \<longrightarrow>
        formatValue eng (cellValue eng r col) = formatValue eng (propertyOf eng r col)
        \<and> formatValue eng (cellValue eng r col) \<noteq> placeholder)
   \<and> (has_dataTable pg \<and> records w (dataset w) \<noteq> [] \<longrightarrow>
        tbodyHtml (updateDataTable eng pg w) = concat (rowsHtml eng (records w (dataset w))))"
proof -
  have rows: "length (rowsHtml eng recs) = length recs" by (simp add: rowsHtml_def)
  have rowsdef: "rowsHtml eng recs =
      map (\<lambda>r. ascii ''<tr>'' @ concat (rowCells eng (columnList recs) r) @ ascii ''</tr>'') recs"
    by (simp add: rowsHtml_def)
  have cells: "length (rowCells eng (columnList recs) r) = length (columnList recs)"
    by (simp add: rowCells_def)
  have cells': "length (rowCells eng (columnList recs) r) = length (headerCells recs)"
    by (simp add: rowCells_def headerCells_def)
  have nth: "\<forall>i. i < length (columnList recs) \<longrightarrow>
      rowCells eng (columnList recs) r ! i =
        ascii ''<td>'' @ formatValue eng (cellValue eng r (columnList recs ! i)) @ ascii ''</td>''"
    by (simp add: rowCells_def)
  have nul: "nullish v \<Longrightarrow> formatValue eng v = placeholder" for v
    by (cases v) (simp_all add: formatValue_def)
  have ph: "\<forall>col. \<not> truthy r \<or> nullish (propertyOf eng r col) \<longrightarrow>
      formatValue eng (cellValue eng r col) = placeholder"
    by (auto simp: cellValue_def nul)
  have lack: "\<forall>col. map_of kvs col = None \<and> nullish (inherited eng (JObj kvs) col) \<longrightarrow>
      formatValue eng (cellValue eng (JObj kvs) col) = placeholder"
    by (auto simp: cellValue_def propertyOf_def nul)
  have notph: "\<not> nullish v \<Longrightarrow> formatValue eng v \<noteq> placeholder" for v
  proof -
    assume n: "\<not> nullish v"
    have p: "placeholder \<noteq> ascii ''true''" "placeholder \<noteq> ascii ''false''"
      by (simp_all add: placeholder_def ascii_def)
    have q: "0x3C \<in> set placeholder"
      by (simp add: placeholder_def ascii_def)
    have e: "placeholder \<noteq> escapeHtml u" for u
      using escaped_no_markup [of u] q by (auto simp: escapeHtml_escaped)
    have c: "placeholder \<noteq> ascii ''<code>'' @ u" for u
      by (simp add: placeholder_def ascii_def)
    from n show ?thesis
      by (cases v)
        (auto simp: formatValue_def p [symmetric] e [symmetric] c [symmetric]
          split: option.splits)
  qed
  have val: "\<forall>col. truthy r \<and> \<not> nullish (propertyOf eng r col) \<longrightarrow>
      formatValue eng (cellValue eng r col) = formatValue eng (propertyOf eng r col)
      \<and> formatValue eng (cellValue eng r col) \<noteq> placeholder"
    by (auto simp: cellValue_def notph)
  have tab: "has_dataTable pg \<and> records w (dataset w) \<noteq> [] \<longrightarrow>
      tbodyHtml (updateDataTable eng pg w) = concat (rowsHtml eng (records w (dataset w)))"
    by (simp add: rendered_table)
  show ?thesis by (intro conjI rows rowsdef cells cells' nth ph lack val tab)
qed

theorem rows_have_one_cell_per_column_witness:
  "has_dataTable sample_page
   \<and> records (initial_world\<lparr>contacts := sample_records\<rparr>)
        (dataset (initial_world\<lparr>contacts := sample_records\<rparr>)) \<noteq> []
   \<and> tbodyHtml (updateDataTable sample_engine sample_page
        (initial_world\<lparr>contacts := sample_records\<rparr>)) =
      concat (rowsHtml sample_engine sample_records)
   \<and> length (rowsHtml sample_engine sample_records) = 4
   \<and> \<not> truthy JNull
   \<and> formatValue sample_engine (cellValue sample_engine JNull (ascii ''a'')) = placeholder
   \<and> map_of [(ascii ''a'', JBool True)] (ascii ''b'') = None
   \<and> nullish (inherited sample_engine (JObj [(ascii ''a'', JBool True)]) (ascii ''b''))
   \<and> formatValue sample_engine
        (cellValue sample_engine (JObj [(ascii ''a'', JBool True)]) (ascii ''b'')) = placeholder
   \<and> (0::nat) < length (columnList sample_records)
   \<and> rowCells sample_engine (columnList sample_records) (JObj [(ascii ''a'', JBool True)]) ! 0 =
      ascii ''<td>'' @ placeholder @ ascii ''</td>''"
proof -
  let ?w = "initial_world\<lparr>contacts := sample_records\<rparr>"
  let ?r = "JObj [(ascii ''a'', JBool True)]"
  have p: "has_dataTable sample_page" by (simp add: sample_page_def)
  have rs: "records ?w (dataset ?w) = sample_records" by (simp add: initial_world_def)
  have r: "records ?w (dataset ?w) \<noteq> []" unfolding rs by (simp add: sample_records_def)
  note a = rows_have_one_cell_per_column [of sample_engine sample_records JNull
      "[(ascii ''a'', JBool True)]" sample_page ?w]
  note b = rows_have_one_cell_per_column [of sample_engine sample_records ?r
      "[(ascii ''a'', JBool True)]" sample_page ?w]
  from a p r have tb: "tbodyHtml (updateDataTable sample_engine sample_page ?w) =
      concat (rowsHtml sample_engine sample_records)"
    unfolding rs by blast
  from a have n: "length (rowsHtml sample_engine sample_records) = 4"
    by (simp add: sample_records_def)
  have f: "\<not> truthy JNull" by simp
  from a f have c1: "formatValue sample_engine (cellValue sample_engine JNull (ascii ''a''))
      = placeholder" by blast
  have m: "map_of [(ascii ''a'', JBool True)] (ascii ''b'') = None" by (simp add: ascii_def)
  have i: "nullish (inherited sample_engine ?r (ascii ''b''))" by (simp add: sample_engine_def)
  from b m i have c2: "formatValue sample_engine (cellValue sample_engine ?r (ascii ''b''))
      = placeholder" by blast
  have l: "(0::nat) < length (columnList sample_records)" by (simp add: sample_columns)
  from b l have "rowCells sample_engine (columnList sample_records) ?r ! 0 =
      ascii ''<td>''
        @ formatValue sample_engine (cellValue sample_engine ?r (columnList sample_records ! 0))
        @ ascii ''</td>''" by blast
  moreover from b have "map_of [(ascii ''a'', JBool True)] (ascii ''0'') = None
      \<and> nullish (inherited sample_engine ?r (ascii ''0'')) \<longrightarrow>
      formatValue sample_engine (cellValue sample_engine ?r (ascii ''0'')) = placeholder" by blast
  then have "formatValue sample_engine (cellValue sample_engine ?r (ascii ''0'')) = placeholder"
    by (simp add: ascii_def sample_engine_def)
  ultimately have c3: "rowCells sample_engine (columnList sample_records) ?r ! 0 =
      ascii ''<td>'' @ placeholder @ ascii ''</td>''"
    by (simp add: sample_columns)
  show ?thesis by (intro conjI p r tb n f c1 m i c2 l c3)
qed

text \<open>
  The claim C10 as it is written fails for a record that is an array: with the records
  \<^verbatim>\<open>{"b":"<i>","0":"x"}\<close>, \<^verbatim>\<open>[7,8]\<close>, \<^verbatim>\<open>null\<close>, \<^verbatim>\<open>{"a":true}\<close> the columns are
  \<^verbatim>\<open>0\<close>, \<^verbatim>\<open>a\<close>, \<^verbatim>\<open>b\<close>, and the row of the array, which is not a plain object, shows its
  element \<^verbatim>\<open>7\<close> in the first cell and not the placeholder.
\<close>

theorem array_record_cell_counterexample:
  "sample_records ! 1 = JArr [JNum (ascii ''7''), JNum (ascii ''8'')]
   \<and> \<not> isPlainObject (sample_records ! 1)
   \<and> columnList sample_records = [ascii ''0'', ascii ''a'', ascii ''b'']
   \<and> rowCells sample_engine (columnList sample_records) (sample_records ! 1) ! 0 =
        ascii ''<td>7</td>''
   \<and> rowCells sample_engine (columnList sample_records) (sample_records ! 1) ! 0 \<noteq>
        ascii ''<td>'' @ placeholder @ ascii ''</td>''"
proof -
  have r: "sample_records ! 1 = JArr [JNum (ascii ''7''), JNum (ascii ''8'')]"
    by (simp add: sample_records_def)
  have n: "\<not> isPlainObject (sample_records ! 1)" unfolding r by (simp add: isPlainObject_def)
  have c: "rowCells sample_engine (columnList sample_records) (sample_records ! 1) ! 0 =
      ascii ''<td>7</td>''"
    unfolding r sample_array_row by simp
  have d: "rowCells sample_engine (columnList sample_records) (sample_records ! 1) ! 0 \<noteq>
      ascii ''<td>'' @ placeholder @ ascii ''</td>''"
    unfolding c by (simp add: placeholder_def ascii_def)
  show ?thesis by (intro conjI r n sample_columns c d)
qed

section \<open>Properties of the loader\<close>

lemma requests_pushLog: "requests (pushLog eng pg m l d w) = requests w"
  by (simp add: pushLog_def Let_def)

lemma appState_requests: "appState (w\<lparr>requests := r\<rparr>) = appState w"
  by (simp add: appState_def)

lemma appState_alerts: "appState (w\<lparr>alerts := a\<rparr>) = appState w"
  by (simp add: appState_def)

lemma fetchText_result:
  "fst (fetchText eng pg net url w) = resourceText net url"
  "requests (snd (fetchText eng pg net url w)) = requests w @ [url]"
  by (simp_all add: fetchText_def resourceText_def Let_def requests_pushLog
      split: response.splits)

lemma fetchJSON_result:
  "requests (snd (fetchJSON eng pg net url w)) = requests w @ [url]"
  by (simp add: fetchJSON_def Let_def requests_pushLog split: response.splits sum.splits)

lemma fetchTextOr_result:
  "fst (fetchTextOr eng pg net a b w) =
     (if truthyText (resourceText net a) then resourceText net a else resourceText net b)"
  "requests (snd (fetchTextOr eng pg net a b w)) =
     requests w @ (if truthyText (resourceText net a) then [a] else [a, b])"
proof -
  obtain t w1 where f: "fetchText eng pg net a w = (t, w1)"
    by (cases "fetchText eng pg net a w")
  with fetchText_result [of eng pg net a w]
  have t: "t = resourceText net a" and r: "requests w1 = requests w @ [a]" by simp_all
  show "fst (fetchTextOr eng pg net a b w) =
     (if truthyText (resourceText net a) then resourceText net a else resourceText net b)"
    using f t by (simp add: fetchTextOr_def fetchText_result)
  show "requests (snd (fetchTextOr eng pg net a b w)) =
     requests w @ (if truthyText (resourceText net a) then [a] else [a, b])"
    using f t r by (simp add: fetchTextOr_def fetchText_result)
qed

lemma fetchTextOr_dataset:
  "fst (fetchTextOr eng pg net (exportStatusUrl base d) (rawUrl base d) w) = chosenText net base d"
  "requests (snd (fetchTextOr eng pg net (exportStatusUrl base d) (rawUrl base d) w)) =
     requests w @ datasetRequests net base d"
  by (simp_all add: fetchTextOr_result chosenText_def datasetRequests_def)

text \<open>The values \<^verbatim>\<open>parseNDJSON\<close> returns depend on the text and on \<^verbatim>\<open>JSON.parse\<close> only.\<close>

lemma fst_parseLines_indep:
  "fst (parseLines eng pg lab i ls (out, w)) = fst (parseLines eng pg' lab' i' ls (out, w'))"
proof (induction ls arbitrary: i i' out w w')
  case Nil
  show ?case by simp
next
  case (Cons l ls)
  show ?case
    by (cases "json_parse eng (trim l)") (simp_all add: Let_def Cons [of "Suc i" _ _ "Suc i'"])
qed

lemma fst_parseNDJSON_indep:
  "fst (parseNDJSON eng pg t lab w) = fst (parseNDJSON eng pg' t lab' w')"
  using fst_parseLines_indep [of eng pg lab 0 _ "[]" w pg' lab' 0 w']
  by (simp add: parseNDJSON_def split: option.splits)

lemma requests_pushLogs: "requests (pushLogs eng pg cs w) = requests w"
proof (induction cs arbitrary: w)
  case Nil
  show ?case by (simp add: pushLogs_def)
next
  case (Cons c cs)
  obtain m l d where c: "c = (m, l, d)" by (cases c) auto
  show ?case unfolding c pushLogs_Cons Cons by (simp add: requests_pushLog)
qed

lemma requests_parseLines:
  "requests (snd (parseLines eng pg lab i ls (out, w))) = requests w"
proof -
  from parseLines_counts [of eng pg lab i ls out w] obtain calls where
    "snd (parseLines eng pg lab i ls (out, w)) = pushLogs eng pg calls w" by blast
  then show ?thesis by (simp add: requests_pushLogs)
qed

lemma requests_parseNDJSON: "requests (snd (parseNDJSON eng pg t lab w)) = requests w"
  by (simp add: parseNDJSON_def requests_parseLines split: option.splits)

lemma requests_updateDataTable: "requests (updateDataTable eng pg w) = requests w"
  by (simp add: updateDataTable_def Let_def)

lemma requests_applyData:
  "requests (snd (applyData eng pg payload lab w)) = requests w"
  by (simp add: applyData_def Let_def refreshUI_def reselect_def requests_pushLog
      requests_updateDataTable split: completion.splits prod.splits)

text \<open>
  A run of \<^verbatim>\<open>loadByPrefix\<close> on a prefix that is not blank: the requests it makes, and the
  datasets it leaves, also when \<^verbatim>\<open>applyData\<close> throws.
\<close>

lemma loadByPrefix_outcome:
  assumes "trim prefix \<noteq> []"
  shows "\<exists>st. set st \<subseteq> {ascii ''../data/'' @ trim prefix @ ascii ''/summary.json'',
                        ascii ''../data/'' @ trim prefix @ ascii ''/load_summary.json''}
     \<and> requests (loadByPrefix eng pg net prefix w) =
         requests w @ st @ datasetRequests net (ascii ''../data/'' @ trim prefix) Contacts
           @ datasetRequests net (ascii ''../data/'' @ trim prefix) Chats
           @ datasetRequests net (ascii ''../data/'' @ trim prefix) Messages
     \<and> (\<forall>d. records (loadByPrefix eng pg net prefix w) d =
           fst (parseNDJSON eng pg (chosenText net (ascii ''../data/'' @ trim prefix) d) lab v))"
proof -
  define base where "base = ascii ''../data/'' @ trim prefix"
  define w0 where
    "w0 = pushLog eng pg (ascii ''Carregando dados a partir do prefixo '' @ trim prefix) Info None w"
  obtain s1 w1 where f1: "fetchJSON eng pg net (base @ ascii ''/summary.json'') w0 = (s1, w1)"
    by (cases "fetchJSON eng pg net (base @ ascii ''/summary.json'') w0")
  obtain s2 w2 where
    f2: "(if \<not> truthy s1 then fetchJSON eng pg net (base @ ascii ''/load_summary.json'') w1
          else (s1, w1)) = (s2, w2)"
    by (cases "(if \<not> truthy s1 then fetchJSON eng pg net (base @ ascii ''/load_summary.json'') w1
                else (s1, w1))")
  obtain ct w3 where
    f3: "fetchTextOr eng pg net (exportStatusUrl base Contacts) (rawUrl base Contacts) w2 = (ct, w3)"
    by (cases "fetchTextOr eng pg net (exportStatusUrl base Contacts) (rawUrl base Contacts) w2")
  obtain ht w4 where
    f4: "fetchTextOr eng pg net (exportStatusUrl base Chats) (rawUrl base Chats) w3 = (ht, w4)"
    by (cases "fetchTextOr eng pg net (exportStatusUrl base Chats) (rawUrl base Chats) w3")
  obtain mt w5 where
    f5: "fetchTextOr eng pg net (exportStatusUrl base Messages) (rawUrl base Messages) w4 = (mt, w5)"
    by (cases "fetchTextOr eng pg net (exportStatusUrl base Messages) (rawUrl base Messages) w4")
  define w6 where
    "w6 = (if \<not> truthy s2 \<and> \<not> truthyText ct \<and> \<not> truthyText ht \<and> \<not> truthyText mt
           then pushLog eng pg (ascii ''Nenhum arquivo encontrado em '' @ base) Warn None w5
           else w5)"
  obtain cl w7 where
    f7: "parseNDJSON eng pg ct (Some (ascii ''Contatos (prefixo)'')) w6 = (cl, w7)"
    by (cases "parseNDJSON eng pg ct (Some (ascii ''Contatos (prefixo)'')) w6")
  obtain hl w8 where
    f8: "parseNDJSON eng pg ht (Some (ascii ''Conversas (prefixo)'')) w7 = (hl, w8)"
    by (cases "parseNDJSON eng pg ht (Some (ascii ''Conversas (prefixo)'')) w7")
  obtain ml w9 where
    f9: "parseNDJSON eng pg mt (Some (ascii ''Mensagens (prefixo)'')) w8 = (ml, w9)"
    by (cases "parseNDJSON eng pg mt (Some (ascii ''Mensagens (prefixo)'')) w8")
  define payload where
    "payload = JObj [(ascii ''summary'', s2), (ascii ''contacts'', JArr cl),
                     (ascii ''chats'', JArr hl), (ascii ''messages'', JArr ml)]"
  obtain c w10 where
    f10: "applyData eng pg payload (ascii ''Prefixo '' @ trim prefix) w9 = (c, w10)"
    by (cases "applyData eng pg payload (ascii ''Prefixo '' @ trim prefix) w9")
  define final where
    "final = (case c of
                Returned \<Rightarrow> w10
              | Threw name message \<Rightarrow>
                  (let w11 = pushLog eng pg (ascii ''Erro ao carregar prefixo '' @ trim prefix) Error
                               (Some (errorText eng name message)) w10
                   in w11\<lparr>alerts := alerts w11 @ [ascii ''Falha ao carregar prefixo: '' @ message]\<rparr>))"
  have run: "loadByPrefix eng pg net prefix w = final"
    using assms f1 f2 f3 f4 f5 f7 f8 f9 f10
    unfolding loadByPrefix_def Let_def base_def [symmetric] w0_def [symmetric]
    by (simp add: w6_def [symmetric] payload_def [symmetric] final_def Let_def
        split: completion.splits)
  have fin_req: "requests final = requests w10"
    by (cases c) (simp_all add: final_def Let_def requests_pushLog)
  have fin_st: "appState final = appState w10"
    by (cases c) (simp_all add: final_def Let_def appState_pushLog appState_alerts)
  have r10: "requests w10 = requests w9"
    using requests_applyData [of eng pg payload "ascii ''Prefixo '' @ trim prefix" w9] f10 by simp
  have r9: "requests w9 = requests w6"
    using requests_parseNDJSON [of eng pg ct "Some (ascii ''Contatos (prefixo)'')" w6]
      requests_parseNDJSON [of eng pg ht "Some (ascii ''Conversas (prefixo)'')" w7]
      requests_parseNDJSON [of eng pg mt "Some (ascii ''Mensagens (prefixo)'')" w8] f7 f8 f9
    by simp
  have r6: "requests w6 = requests w5" by (simp add: w6_def requests_pushLog)
  have r5: "requests w5 = requests w2 @ datasetRequests net base Contacts
      @ datasetRequests net base Chats @ datasetRequests net base Messages"
    using fetchTextOr_dataset(2) [of eng pg net base Contacts w2]
      fetchTextOr_dataset(2) [of eng pg net base Chats w3]
      fetchTextOr_dataset(2) [of eng pg net base Messages w4] f3 f4 f5 by simp
  have r1: "requests w1 = requests w @ [base @ ascii ''/summary.json'']"
    using fetchJSON_result [of eng pg net "base @ ascii ''/summary.json''" w0] f1
    by (simp add: w0_def requests_pushLog)
  have "\<exists>st. set st \<subseteq> {base @ ascii ''/summary.json'', base @ ascii ''/load_summary.json''}
      \<and> requests w2 = requests w @ st"
  proof (cases "truthy s1")
    case True
    with f2 have "w2 = w1" by simp
    with r1 show ?thesis by (intro exI [of _ "[base @ ascii ''/summary.json'']"]) simp
  next
    case False
    with f2 have "requests w2 = requests w1 @ [base @ ascii ''/load_summary.json'']"
      using fetchJSON_result [of eng pg net "base @ ascii ''/load_summary.json''" w1] by simp
    with r1 show ?thesis
      by (intro exI [of _ "[base @ ascii ''/summary.json'', base @ ascii ''/load_summary.json'']"])
        simp
  qed
  then obtain st where
    st: "set st \<subseteq> {base @ ascii ''/summary.json'', base @ ascii ''/load_summary.json''}"
      "requests w2 = requests w @ st" by blast
  have texts: "ct = chosenText net base Contacts" "ht = chosenText net base Chats"
    "mt = chosenText net base Messages"
    using fetchTextOr_dataset(1) [of eng pg net base Contacts w2]
      fetchTextOr_dataset(1) [of eng pg net base Chats w3]
      fetchTextOr_dataset(1) [of eng pg net base Messages w4] f3 f4 f5 by simp_all
  have lists: "cl = fst (parseNDJSON eng pg ct lab v)" "hl = fst (parseNDJSON eng pg ht lab v)"
    "ml = fst (parseNDJSON eng pg mt lab v)"
    using f7 f8 f9
      fst_parseNDJSON_indep [of eng pg ct "Some (ascii ''Contatos (prefixo)'')" w6 pg lab v]
      fst_parseNDJSON_indep [of eng pg ht "Some (ascii ''Conversas (prefixo)'')" w7 pg lab v]
      fst_parseNDJSON_indep [of eng pg mt "Some (ascii ''Mensagens (prefixo)'')" w8 pg lab v]
    by simp_all
  have stored: "contacts w10 = cl" "chats w10 = hl" "messages w10 = ml"
    using stored_after_applyData(2-4) [of eng pg payload "ascii ''Prefixo '' @ trim prefix" w9] f10
    by (simp_all add: payload_def payloadArray_def optionalRead_def propertyOf_def ascii_def)
  have recs: "records final d = fst (parseNDJSON eng pg (chosenText net base d) lab v)" for d
    using fin_st stored lists texts by (cases d) (simp_all add: appState_def)
  show ?thesis
    unfolding run base_def [symmetric]
    using st recs fin_req r10 r9 r6 r5
    by (intro exI [of _ st]) (simp add: base_def)
qed

text \<open>The URLs of one load are all different.\<close>

lemma rawUrl_distinct:
  "rawUrl base d \<noteq> exportStatusUrl base d'"
  "rawUrl base d \<noteq> base @ ascii ''/summary.json''"
  "rawUrl base d \<noteq> base @ ascii ''/load_summary.json''"
  "(rawUrl base d = rawUrl base d') = (d = d')"
  by (cases d; cases d'; simp add: rawUrl_def exportStatusUrl_def ascii_def)+

lemma rawUrl_in_datasetRequests:
  "rawUrl base d \<in> set (datasetRequests net base d') \<longleftrightarrow>
     d' = d \<and> \<not> truthyText (resourceText net (exportStatusUrl base d))"
  using rawUrl_distinct(1) [of base d d'] rawUrl_distinct(4) [of base d d']
  by (auto simp: datasetRequests_def)

lemma exportStatusUrl_in_datasetRequests:
  "exportStatusUrl base d \<in> set (datasetRequests net base d)"
  by (simp add: datasetRequests_def)

lemma no_text_no_records: "fst (parseNDJSON eng pg None lab w) = []"
  by (simp add: parseNDJSON_def)

lemma loadByPrefix_requests:
  assumes "trim prefix \<noteq> []"
  shows "exportStatusUrl (ascii ''../data/'' @ trim prefix) d
           \<in> set (drop (length (requests w)) (requests (loadByPrefix eng pg net prefix w)))"
    and "rawUrl (ascii ''../data/'' @ trim prefix) d
           \<in> set (drop (length (requests w)) (requests (loadByPrefix eng pg net prefix w)))
         \<longleftrightarrow> \<not> truthyText (resourceText net (exportStatusUrl (ascii ''../data/'' @ trim prefix) d))"
proof -
  let ?base = "ascii ''../data/'' @ trim prefix"
  from loadByPrefix_outcome [OF assms, of eng pg net w None w] obtain st where
    st: "set st \<subseteq> {?base @ ascii ''/summary.json'', ?base @ ascii ''/load_summary.json''}"
    and rq: "requests (loadByPrefix eng pg net prefix w) =
         requests w @ st @ datasetRequests net ?base Contacts
           @ datasetRequests net ?base Chats @ datasetRequests net ?base Messages"
    by auto
  have new: "drop (length (requests w)) (requests (loadByPrefix eng pg net prefix w)) =
      st @ datasetRequests net ?base Contacts
        @ datasetRequests net ?base Chats @ datasetRequests net ?base Messages"
    unfolding rq by simp
  show "exportStatusUrl ?base d
      \<in> set (drop (length (requests w)) (requests (loadByPrefix eng pg net prefix w)))"
    unfolding new using exportStatusUrl_in_datasetRequests [of ?base d net] by (cases d) auto
  have nst: "rawUrl ?base d \<notin> set st"
    using st rawUrl_distinct(2,3) [of ?base d] by (auto simp del: append_assoc)
  show "rawUrl ?base d
      \<in> set (drop (length (requests w)) (requests (loadByPrefix eng pg net prefix w)))
      \<longleftrightarrow> \<not> truthyText (resourceText net (exportStatusUrl ?base d))"
    unfolding new using nst by (cases d) (auto simp: rawUrl_in_datasetRequests)
qed

text \<open>
  C8, as the code has it. In a load by a prefix that is not blank, for each dataset the
  export-status resource is requested; when its text is truthy (there and not empty) it
  is the text fed to the parser and the raw resource is not requested; when it is absent
  or empty the raw resource is requested too, and its text, if there, is the text fed to
  the parser. The dataset after the load is what the parser returns for this text, and
  it is empty when neither resource is there.
\<close>

theorem loadByPrefix_export_status_first:
  assumes "trim prefix \<noteq> []"
  shows
   "records (loadByPrefix eng pg net prefix w) d =
      fst (parseNDJSON eng pg (chosenText net (ascii ''../data/'' @ trim prefix) d) lab v)
    \<and> exportStatusUrl (ascii ''../data/'' @ trim prefix) d
        \<in> set (drop (length (requests w)) (requests (loadByPrefix eng pg net prefix w)))
    \<and> (truthyText (resourceText net (exportStatusUrl (ascii ''../data/'' @ trim prefix) d)) \<longrightarrow>
         chosenText net (ascii ''../data/'' @ trim prefix) d =
           resourceText net (exportStatusUrl (ascii ''../data/'' @ trim prefix) d)
         \<and> rawUrl (ascii ''../data/'' @ trim prefix) d
             \<notin> set (drop (length (requests w)) (requests (loadByPrefix eng pg net prefix w))))
    \<and> (\<not> truthyText (resourceText net (exportStatusUrl (ascii ''../data/'' @ trim prefix) d)) \<longrightarrow>
         chosenText net (ascii ''../data/'' @ trim prefix) d =
           resourceText net (rawUrl (ascii ''../data/'' @ trim prefix) d)
         \<and> rawUrl (ascii ''../data/'' @ trim prefix) d
             \<in> set (drop (length (requests w)) (requests (loadByPrefix eng pg net prefix w))))
    \<and> (resourceText net (exportStatusUrl (ascii ''../data/'' @ trim prefix) d) = None
         \<and> resourceText net (rawUrl (ascii ''../data/'' @ trim prefix) d) = None \<longrightarrow>
         records (loadByPrefix eng pg net prefix w) d = [])"
proof -
  let ?base = "ascii ''../data/'' @ trim prefix"
  from loadByPrefix_outcome [OF assms, of eng pg net w lab v]
  have recs: "records (loadByPrefix eng pg net prefix w) d =
      fst (parseNDJSON eng pg (chosenText net ?base d) lab v)" by auto
  have none: "resourceText net (exportStatusUrl ?base d) = None
      \<and> resourceText net (rawUrl ?base d) = None \<longrightarrow>
      records (loadByPrefix eng pg net prefix w) d = []"
    unfolding recs by (simp add: chosenText_def truthyText_def no_text_no_records)
  have t: "truthyText (resourceText net (exportStatusUrl ?base d)) \<longrightarrow>
      chosenText net ?base d = resourceText net (exportStatusUrl ?base d)
      \<and> rawUrl ?base d
          \<notin> set (drop (length (requests w)) (requests (loadByPrefix eng pg net prefix w)))"
    using loadByPrefix_requests(2) [OF assms, of d w eng pg net] by (simp add: chosenText_def)
  have f: "\<not> truthyText (resourceText net (exportStatusUrl ?base d)) \<longrightarrow>
      chosenText net ?base d = resourceText net (rawUrl ?base d)
      \<and> rawUrl ?base d
          \<in> set (drop (length (requests w)) (requests (loadByPrefix eng pg net prefix w)))"
    using loadByPrefix_requests(2) [OF assms, of d w eng pg net] by (simp add: chosenText_def)
  show ?thesis
    by (intro conjI recs loadByPrefix_requests(1) [OF assms] t f none)
qed

lemma trim_p: "trim (ascii ''p'') = ascii ''p''"
  by (simp add: trim_def isTrimmed_def ascii_def)

lemma sample_net_texts:
  "resourceText sample_net (exportStatusUrl (ascii ''../data/p'') Contacts) = Some (ascii ''{\"a\":1}'')"
  "resourceText sample_net (exportStatusUrl (ascii ''../data/p'') Chats) = None"
  "resourceText sample_net (rawUrl (ascii ''../data/p'') Chats) = None"
  by (simp_all add: resourceText_def sample_net_def exportStatusUrl_def rawUrl_def ascii_def)

lemma empty_export_net_texts:
  "resourceText empty_export_net (exportStatusUrl (ascii ''../data/p'') Contacts) = Some []"
  "resourceText empty_export_net (rawUrl (ascii ''../data/p'') Contacts) = Some (ascii ''{\"a\":1}'')"
  by (simp_all add: resourceText_def empty_export_net_def exportStatusUrl_def rawUrl_def ascii_def)

lemma parse_one_record:
  "fst (parseNDJSON sample_engine sample_page (Some (ascii ''{\"a\":1}'')) None initial_world) =
     [JObj [(ascii ''a'', JNum (ascii ''1''))]]"
  by (simp add: parseNDJSON_def splitLines_def ascii_def trim_def isTrimmed_def
      sample_engine_def sample_texts_def Let_def)

theorem loadByPrefix_export_status_first_witness:
  "trim (ascii ''p'') \<noteq> []
   \<and> truthyText (resourceText sample_net (exportStatusUrl (ascii ''../data/p'') Contacts))
   \<and> contacts (loadByPrefix sample_engine sample_page sample_net (ascii ''p'') initial_world) =
       [JObj [(ascii ''a'', JNum (ascii ''1''))]]
   \<and> rawUrl (ascii ''../data/p'') Contacts
       \<notin> set (requests (loadByPrefix sample_engine sample_page sample_net (ascii ''p'') initial_world))
   \<and> resourceText sample_net (exportStatusUrl (ascii ''../data/p'') Chats) = None
   \<and> resourceText sample_net (rawUrl (ascii ''../data/p'') Chats) = None
   \<and> chats (loadByPrefix sample_engine sample_page sample_net (ascii ''p'') initial_world) = []"
proof -
  have b: "ascii ''../data/'' @ trim (ascii ''p'') = ascii ''../data/p''"
    by (simp add: trim_p) (simp add: ascii_def)
  have p: "trim (ascii ''p'') \<noteq> []" by (simp add: trim_p) (simp add: ascii_def)
  have t: "truthyText (resourceText sample_net (exportStatusUrl (ascii ''../data/p'') Contacts))"
    by (simp add: sample_net_texts truthyText_def) (simp add: ascii_def)
  note c = loadByPrefix_export_status_first [OF p, of sample_engine sample_page sample_net
      initial_world Contacts None initial_world, unfolded b]
  note h = loadByPrefix_export_status_first [OF p, of sample_engine sample_page sample_net
      initial_world Chats None initial_world, unfolded b]
  have r0: "requests initial_world = []" by (simp add: initial_world_def)
  from c t have ch: "chosenText sample_net (ascii ''../data/p'') Contacts =
      Some (ascii ''{\"a\":1}'')"
    by (simp add: sample_net_texts)
  from c have "records (loadByPrefix sample_engine sample_page sample_net (ascii ''p'')
      initial_world) Contacts =
      fst (parseNDJSON sample_engine sample_page
             (chosenText sample_net (ascii ''../data/p'') Contacts) None initial_world)"
    by blast
  then have 1: "contacts (loadByPrefix sample_engine sample_page sample_net (ascii ''p'')
      initial_world) = [JObj [(ascii ''a'', JNum (ascii ''1''))]]"
    unfolding ch parse_one_record by simp
  from c t have 2: "rawUrl (ascii ''../data/p'') Contacts
      \<notin> set (requests (loadByPrefix sample_engine sample_page sample_net (ascii ''p'')
            initial_world))"
    by (simp add: r0)
  from h sample_net_texts(2,3)
  have "records (loadByPrefix sample_engine sample_page sample_net (ascii ''p'')
      initial_world) Chats = []"
    by blast
  then have 3: "chats (loadByPrefix sample_engine sample_page sample_net (ascii ''p'')
      initial_world) = []"
    by simp
  show ?thesis by (intro conjI p t 1 2 sample_net_texts(2,3) 3)
qed

text \<open>
  The claim C8 as it is written fails for an export-status resource that is there and
  empty: its text is the empty string, not \<^verbatim>\<open>null\<close>, yet the raw resource is requested
  and the dataset is the record of the raw resource, not the empty dataset that the
  empty text gives.
\<close>

theorem empty_export_status_counterexample:
  "resourceText empty_export_net (exportStatusUrl (ascii ''../data/p'') Contacts) = Some []
   \<and> rawUrl (ascii ''../data/p'') Contacts
       \<in> set (requests (loadByPrefix sample_engine sample_page empty_export_net (ascii ''p'')
                initial_world))
   \<and> contacts (loadByPrefix sample_engine sample_page empty_export_net (ascii ''p'')
        initial_world) = [JObj [(ascii ''a'', JNum (ascii ''1''))]]
   \<and> fst (parseNDJSON sample_engine sample_page (Some []) None initial_world) = []"
proof -
  have b: "ascii ''../data/'' @ trim (ascii ''p'') = ascii ''../data/p''"
    by (simp add: trim_p) (simp add: ascii_def)
  have p: "trim (ascii ''p'') \<noteq> []" by (simp add: trim_p) (simp add: ascii_def)
  have r0: "requests initial_world = []" by (simp add: initial_world_def)
  have ch: "chosenText empty_export_net (ascii ''../data/p'') Contacts =
      Some (ascii ''{\"a\":1}'')"
    by (simp add: chosenText_def empty_export_net_texts truthyText_def)
  from loadByPrefix_outcome [OF p, of sample_engine sample_page empty_export_net initial_world
      None initial_world, unfolded b]
  have "\<forall>d. records (loadByPrefix sample_engine sample_page empty_export_net (ascii ''p'')
      initial_world) d =
      fst (parseNDJSON sample_engine sample_page
             (chosenText empty_export_net (ascii ''../data/p'') d) None initial_world)"
    by blast
  then have "records (loadByPrefix sample_engine sample_page empty_export_net (ascii ''p'')
      initial_world) Contacts =
      fst (parseNDJSON sample_engine sample_page
             (chosenText empty_export_net (ascii ''../data/p'') Contacts) None initial_world)"
    by (rule spec)
  then have 1: "contacts (loadByPrefix sample_engine sample_page empty_export_net (ascii ''p'')
      initial_world) = [JObj [(ascii ''a'', JNum (ascii ''1''))]]"
    unfolding ch parse_one_record by simp
  from loadByPrefix_requests(2) [OF p, of Contacts initial_world sample_engine sample_page
      empty_export_net, unfolded b]
  have 2: "rawUrl (ascii ''../data/p'') Contacts
      \<in> set (requests (loadByPrefix sample_engine sample_page empty_export_net (ascii ''p'')
            initial_world))"
    by (simp add: r0 empty_export_net_texts truthyText_def)
  have 3: "fst (parseNDJSON sample_engine sample_page (Some []) None initial_world) = []"
    by (simp add: parseNDJSON_def)
  show ?thesis by (intro conjI empty_export_net_texts(1) 2 1 3)
qed

section \<open>Properties of the self-test\<close>

lemma last_logLines_pushLog:
  "last (logLines (pushLog eng pg m l d w)) = logLine (time_text eng (clockReads w)) l m d"
  by (cases "logLines w") (simp_all add: logLines_pushLog Let_def)

lemma appState_updateStatus: "appState (updateStatus pg t c w) = appState w"
  by (simp add: updateStatus_def appState_def)

lemma clockReads_updateStatus: "clockReads (updateStatus pg t c w) = clockReads w"
  by (simp add: updateStatus_def)

lemma testStatus_pushLog: "testStatus (pushLog eng pg m l d w) = testStatus w"
  by (simp add: pushLog_def Let_def)

text \<open>
  When the \<^verbatim>\<open>try\<close> block throws without having changed the state it was started in,
  the run leaves what \<open>failureShown\<close> says.
\<close>

lemma runTest_thrown:
  assumes "has_btnTestRun pg"
    and "\<And>v. runTestBody eng pg post v = (Threw name message, v)"
  shows "failureShown eng pg w (runTest eng pg post w) name message"
proof -
  let ?w1 = "updateStatus pg (ascii ''Executando teste r'' @ [0xE1] @ ascii ''pido'' @ [0x2026])
                    (ascii ''loading'') w"
  let ?w2 = "pushLog eng pg
                    (ascii ''Executando teste r'' @ [0xE1] @ ascii ''pido na fun'' @ [0xE7, 0xE3]
                       @ ascii ''o serverless'' @ [0x2026])
                    Info None ?w1"
  have run: "runTest eng pg post w =
      pushLog eng pg (ascii ''Erro ao executar teste r'' @ [0xE1] @ ascii ''pido'') Error
        (Some (errorText eng name message))
        (updateStatus pg (ascii ''Erro: '' @ message) (ascii ''error'') ?w2)"
    using assms(1) assms(2) [of ?w2] by (simp add: runTest_def Let_def)
  have st: "appState (runTest eng pg post w) = appState w"
    unfolding run by (simp add: appState_pushLog appState_updateStatus)
  have ck: "clockReads (updateStatus pg (ascii ''Erro: '' @ message) (ascii ''error'') ?w2)
      = Suc (clockReads w)"
    by (simp add: clockReads_updateStatus clockReads_pushLog)
  have lg: "last (logLines (runTest eng pg post w)) =
      logLine (time_text eng (Suc (clockReads w))) Error
        (ascii ''Erro ao executar teste r'' @ [0xE1] @ ascii ''pido'')
        (Some (errorText eng name message))"
    unfolding run last_logLines_pushLog ck ..
  have vs: "has_testStatus pg \<longrightarrow>
      testStatus (runTest eng pg post w) = (ascii ''Erro: '' @ message, ascii ''error'')"
    unfolding run by (simp add: testStatus_pushLog updateStatus_def)
  from st vs lg show ?thesis unfolding failureShown_def by blast
qed

lemma failureMessage_with_hint:
  assumes "map_of kvs (ascii ''error'') = Some (JStr e)" "e \<noteq> []"
    and "map_of kvs (ascii ''hint'') = Some (JStr h)" "h \<noteq> []"
  shows "failureMessage eng (JObj kvs) = e @ [0x0A] @ ascii ''Dica: '' @ h"
  using assms by (simp add: failureMessage_def propertyOf_def Let_def)

lemma failureMessage_without_hint:
  assumes "map_of kvs (ascii ''error'') = Some (JStr e)" "e \<noteq> []"
    and "\<not> truthy (propertyOf eng (JObj kvs) (ascii ''hint''))"
  shows "failureMessage eng (JObj kvs) = e"
  using assms by (simp add: failureMessage_def propertyOf_def Let_def)

lemma failed_response_status:
  "testStatus (runTest sample_engine sample_page failed_response initial_world) =
     (ascii ''Erro: auth failed'' @ [0x0A] @ ascii ''Dica: rotate token'', ascii ''error'')"
  by (simp add: runTest_def runTestBody_def failed_response_def sample_engine_def
      sample_page_def sample_texts_def Let_def updateStatus_def pushLog_def
      failureMessage_def propertyOf_def initial_world_def ascii_def)

lemma failed_response_frames_log:
  "last (logLines (runTest frames_engine sample_page failed_response initial_world)) =
     ascii ''[00:00:00] [ERROR] Erro ao executar teste r'' @ [0xE1] @ ascii ''pido'' @ [0x0A]
       @ ascii ''runTest@app.js:432:15''"
  by (simp add: runTest_def runTestBody_def failed_response_def frames_engine_def
      sample_engine_def sample_page_def sample_texts_def Let_def updateStatus_def pushLog_def
      failureMessage_def propertyOf_def initial_world_def logLine_def errorText_def ascii_def)

lemma failed_response_no_status_line:
  "testStatus (runTest sample_engine (sample_page\<lparr>has_testStatus := False\<rparr>) failed_response
     initial_world) = testStatus initial_world"
  by (simp add: runTest_def runTestBody_def failed_response_def sample_engine_def
      sample_page_def sample_texts_def Let_def updateStatus_def pushLog_def
      failureMessage_def propertyOf_def initial_world_def ascii_def)

text \<open>
  C9, as the code has it. On a page with the test button, a run of the self-test that
  fails by an error of the network, by a body that is not JSON, or by a status that is
  not 2xx leaves the object \<^verbatim>\<open>state\<close> as it was (\<^verbatim>\<open>applyData\<close> is not called); it writes
  \<^verbatim>\<open>Erro:\<close> and the message of the error on the status line when the page has one, and
  appends to the log an entry of level \<^verbatim>\<open>error\<close> whose details are \<^verbatim>\<open>err.stack\<close> when the
  engine gives one and else the name and the message of the error. For a status that is
  not 2xx the message is \<^verbatim>\<open>payload.error\<close> followed, when \<^verbatim>\<open>payload.hint\<close> is truthy, by
  the hint.
\<close>

theorem runTest_failure_keeps_state:
  assumes "has_btnTestRun pg"
  shows
   "(\<forall>message. post = NetworkError message \<longrightarrow>
       failureShown eng pg w (runTest eng pg post w) (ascii ''TypeError'') message)
    \<and> (\<forall>ok body message.
         post = Response ok body
         \<and> json_parse eng (if body = [] then ascii ''{}'' else body) = Inl message \<longrightarrow>
         failureShown eng pg w (runTest eng pg post w) (ascii ''Error'')
           (ascii ''Resposta inv'' @ [0xE1] @ ascii ''lida da fun'' @ [0xE7, 0xE3]
              @ ascii ''o (JSON malformado).''))
    \<and> (\<forall>body payload.
         post = Response False body
         \<and> json_parse eng (if body = [] then ascii ''{}'' else body) = Inr payload
         \<and> \<not> nullish payload \<longrightarrow>
         failureShown eng pg w (runTest eng pg post w) (ascii ''Error'')
           (failureMessage eng payload))
    \<and> (\<forall>body payload.
         post = Response False body
         \<and> json_parse eng (if body = [] then ascii ''{}'' else body) = Inr payload
         \<and> nullish payload \<longrightarrow>
         failureShown eng pg w (runTest eng pg post w) (ascii ''TypeError'')
           (null_read_text eng (ascii ''error'')))
    \<and> (\<forall>name message. stack_text eng name message = [] \<and> message \<noteq> [] \<longrightarrow>
         errorText eng name message = name @ ascii '': '' @ message)
    \<and> (\<forall>name message. stack_text eng name message \<noteq> [] \<longrightarrow>
         errorText eng name message = stack_text eng name message)
    \<and> (\<forall>kvs e h.
         map_of kvs (ascii ''error'') = Some (JStr e) \<and> e \<noteq> []
         \<and> map_of kvs (ascii ''hint'') = Some (JStr h) \<and> h \<noteq> [] \<longrightarrow>
         failureMessage eng (JObj kvs) = e @ [0x0A] @ ascii ''Dica: '' @ h)
    \<and> (\<forall>kvs e.
         map_of kvs (ascii ''error'') = Some (JStr e) \<and> e \<noteq> []
         \<and> \<not> truthy (propertyOf eng (JObj kvs) (ascii ''hint'')) \<longrightarrow>
         failureMessage eng (JObj kvs) = e)"
proof -
  have net: "\<forall>message. post = NetworkError message \<longrightarrow>
      failureShown eng pg w (runTest eng pg post w) (ascii ''TypeError'') message"
  proof (intro allI impI)
    fix message assume "post = NetworkError message"
    then have "runTestBody eng pg post v = (Threw (ascii ''TypeError'') message, v)" for v
      by (simp add: runTestBody_def)
    from runTest_thrown [OF assms this]
    show "failureShown eng pg w (runTest eng pg post w) (ascii ''TypeError'') message" .
  qed
  have bad: "\<forall>ok body message.
      post = Response ok body
      \<and> json_parse eng (if body = [] then ascii ''{}'' else body) = Inl message \<longrightarrow>
      failureShown eng pg w (runTest eng pg post w) (ascii ''Error'')
        (ascii ''Resposta inv'' @ [0xE1] @ ascii ''lida da fun'' @ [0xE7, 0xE3]
           @ ascii ''o (JSON malformado).'')"
  proof (intro allI impI)
    fix ok body message
    assume "post = Response ok body
      \<and> json_parse eng (if body = [] then ascii ''{}'' else body) = Inl message"
    then have "runTestBody eng pg post v =
        (Threw (ascii ''Error'')
           (ascii ''Resposta inv'' @ [0xE1] @ ascii ''lida da fun'' @ [0xE7, 0xE3]
              @ ascii ''o (JSON malformado).''), v)" for v
      by (simp add: runTestBody_def)
    from runTest_thrown [OF assms this]
    show "failureShown eng pg w (runTest eng pg post w) (ascii ''Error'')
        (ascii ''Resposta inv'' @ [0xE1] @ ascii ''lida da fun'' @ [0xE7, 0xE3]
           @ ascii ''o (JSON malformado).'')" .
  qed
  have status: "\<forall>body payload.
      post = Response False body
      \<and> json_parse eng (if body = [] then ascii ''{}'' else body) = Inr payload
      \<and> \<not> nullish payload \<longrightarrow>
      failureShown eng pg w (runTest eng pg post w) (ascii ''Error'') (failureMessage eng payload)"
  proof (intro allI impI)
    fix body payload
    assume "post = Response False body
      \<and> json_parse eng (if body = [] then ascii ''{}'' else body) = Inr payload
      \<and> \<not> nullish payload"
    then have "runTestBody eng pg post v =
        (Threw (ascii ''Error'') (failureMessage eng payload), v)" for v
      by (simp add: runTestBody_def)
    from runTest_thrown [OF assms this]
    show "failureShown eng pg w (runTest eng pg post w) (ascii ''Error'')
        (failureMessage eng payload)" .
  qed
  have nullbody: "\<forall>body payload.
      post = Response False body
      \<and> json_parse eng (if body = [] then ascii ''{}'' else body) = Inr payload
      \<and> nullish payload \<longrightarrow>
      failureShown eng pg w (runTest eng pg post w) (ascii ''TypeError'')
        (null_read_text eng (ascii ''error''))"
  proof (intro allI impI)
    fix body payload
    assume "post = Response False body
      \<and> json_parse eng (if body = [] then ascii ''{}'' else body) = Inr payload
      \<and> nullish payload"
    then have "runTestBody eng pg post v =
        (Threw (ascii ''TypeError'') (null_read_text eng (ascii ''error'')), v)" for v
      by (simp add: runTestBody_def)
    from runTest_thrown [OF assms this]
    show "failureShown eng pg w (runTest eng pg post w) (ascii ''TypeError'')
        (null_read_text eng (ascii ''error''))" .
  qed
  have e1: "\<forall>name message. stack_text eng name message = [] \<and> message \<noteq> [] \<longrightarrow>
      errorText eng name message = name @ ascii '': '' @ message"
    by (simp add: errorText_def errorString_def)
  have e2: "\<forall>name message. stack_text eng name message \<noteq> [] \<longrightarrow>
      errorText eng name message = stack_text eng name message"
    by (simp add: errorText_def)
  have h1: "\<forall>kvs e h.
      map_of kvs (ascii ''error'') = Some (JStr e) \<and> e \<noteq> []
      \<and> map_of kvs (ascii ''hint'') = Some (JStr h) \<and> h \<noteq> [] \<longrightarrow>
      failureMessage eng (JObj kvs) = e @ [0x0A] @ ascii ''Dica: '' @ h"
    using failureMessage_with_hint by blast
  have h2: "\<forall>kvs e.
      map_of kvs (ascii ''error'') = Some (JStr e) \<and> e \<noteq> []
      \<and> \<not> truthy (propertyOf eng (JObj kvs) (ascii ''hint'')) \<longrightarrow>
      failureMessage eng (JObj kvs) = e"
    using failureMessage_without_hint by blast
  show ?thesis by (intro conjI net bad status nullbody e1 e2 h1 h2)
qed

theorem runTest_failure_keeps_state_witness:
  "has_btnTestRun sample_page
   \<and> has_testStatus sample_page
   \<and> appState (runTest sample_engine sample_page failed_response
        (initial_world\<lparr>contacts := sample_records\<rparr>))
      = appState (initial_world\<lparr>contacts := sample_records\<rparr>)
   \<and> testStatus (runTest sample_engine sample_page failed_response
        (initial_world\<lparr>contacts := sample_records\<rparr>))
      = (ascii ''Erro: auth failed'' @ [0x0A] @ ascii ''Dica: rotate token'', ascii ''error'')
   \<and> last (logLines (runTest sample_engine sample_page failed_response
        (initial_world\<lparr>contacts := sample_records\<rparr>)))
      = ascii ''[00:00:00] [ERROR] Erro ao executar teste r'' @ [0xE1] @ ascii ''pido'' @ [0x0A]
          @ ascii ''Error: auth failed'' @ [0x0A] @ ascii ''Dica: rotate token''"
proof -
  let ?w = "initial_world\<lparr>contacts := sample_records\<rparr>"
  let ?kvs = "[(ascii ''error'', JStr (ascii ''auth failed'')),
               (ascii ''hint'', JStr (ascii ''rotate token''))]"
  let ?body = "ascii ''{\"error\":\"auth failed\",\"hint\":\"rotate token\"}''"
  have b: "has_btnTestRun sample_page" and t: "has_testStatus sample_page"
    by (simp_all add: sample_page_def)
  note inst = runTest_failure_keeps_state [OF b, of failed_response sample_engine ?w]
  have post: "failed_response = Response False ?body" by (simp add: failed_response_def)
  have parse: "json_parse sample_engine (if ?body = [] then ascii ''{}'' else ?body) = Inr (JObj ?kvs)"
    by (simp add: sample_engine_def sample_texts_def ascii_def)
  have nn: "\<not> nullish (JObj ?kvs)" by simp
  from inst post parse nn
  have shown: "failureShown sample_engine sample_page ?w
      (runTest sample_engine sample_page failed_response ?w) (ascii ''Error'')
      (failureMessage sample_engine (JObj ?kvs))"
    by blast
  have fields: "map_of ?kvs (ascii ''error'') = Some (JStr (ascii ''auth failed''))
      \<and> ascii ''auth failed'' \<noteq> []
      \<and> map_of ?kvs (ascii ''hint'') = Some (JStr (ascii ''rotate token''))
      \<and> ascii ''rotate token'' \<noteq> []"
    by (simp add: ascii_def)
  from inst fields
  have msg: "failureMessage sample_engine (JObj ?kvs) =
      ascii ''auth failed'' @ [0x0A] @ ascii ''Dica: '' @ ascii ''rotate token''"
    by blast
  have nostack: "stack_text sample_engine (ascii ''Error'') (failureMessage sample_engine (JObj ?kvs)) = []
      \<and> failureMessage sample_engine (JObj ?kvs) \<noteq> []"
    unfolding msg by (simp add: sample_engine_def ascii_def)
  from inst nostack
  have err: "errorText sample_engine (ascii ''Error'') (failureMessage sample_engine (JObj ?kvs)) =
      ascii ''Error'' @ ascii '': '' @ failureMessage sample_engine (JObj ?kvs)"
    by blast
  from shown have 1: "appState (runTest sample_engine sample_page failed_response ?w) = appState ?w"
    by (simp add: failureShown_def)
  from shown t have 2: "testStatus (runTest sample_engine sample_page failed_response ?w) =
      (ascii ''Erro: auth failed'' @ [0x0A] @ ascii ''Dica: rotate token'', ascii ''error'')"
    unfolding failureShown_def msg by (simp add: ascii_def)
  have line: "logLine (time_text sample_engine (Suc (clockReads ?w))) Error
        (ascii ''Erro ao executar teste r'' @ [0xE1] @ ascii ''pido'')
        (Some (errorText sample_engine (ascii ''Error'') (failureMessage sample_engine (JObj ?kvs))))
      = ascii ''[00:00:00] [ERROR] Erro ao executar teste r'' @ [0xE1] @ ascii ''pido'' @ [0x0A]
        @ ascii ''Error: auth failed'' @ [0x0A] @ ascii ''Dica: rotate token''"
    unfolding msg err [unfolded msg] by (simp add: logLine_def sample_engine_def ascii_def)
  from shown have "last (logLines (runTest sample_engine sample_page failed_response ?w)) =
      logLine (time_text sample_engine (Suc (clockReads ?w))) Error
        (ascii ''Erro ao executar teste r'' @ [0xE1] @ ascii ''pido'')
        (Some (errorText sample_engine (ascii ''Error'') (failureMessage sample_engine (JObj ?kvs))))"
    by (simp add: failureShown_def)
  then have 3: "last (logLines (runTest sample_engine sample_page failed_response ?w)) =
      ascii ''[00:00:00] [ERROR] Erro ao executar teste r'' @ [0xE1] @ ascii ''pido'' @ [0x0A]
        @ ascii ''Error: auth failed'' @ [0x0A] @ ascii ''Dica: rotate token''"
    unfolding line .
  show ?thesis by (intro conjI b t 1 2 3)
qed

text \<open>
  The claim C9 as it is written fails in two ways for the response of status 500 with
  the body \<^verbatim>\<open>{"error":"auth failed","hint":"rotate token"}\<close>. On an engine whose
  \<^verbatim>\<open>stack\<close> text holds the call frames only, the entry in the log holds neither the
  message nor the hint. On a page without the status line nothing is written to it.
\<close>

theorem failure_not_in_log_counterexample:
  "has_btnTestRun sample_page
   \<and> last (logLines (runTest frames_engine sample_page failed_response initial_world)) =
       ascii ''[00:00:00] [ERROR] Erro ao executar teste r'' @ [0xE1] @ ascii ''pido'' @ [0x0A]
         @ ascii ''runTest@app.js:432:15''
   \<and> \<not> containsText (ascii ''auth failed'')
         (last (logLines (runTest frames_engine sample_page failed_response initial_world)))
   \<and> \<not> containsText (ascii ''rotate token'')
         (last (logLines (runTest frames_engine sample_page failed_response initial_world)))
   \<and> has_btnTestRun (sample_page\<lparr>has_testStatus := False\<rparr>)
   \<and> testStatus (runTest sample_engine (sample_page\<lparr>has_testStatus := False\<rparr>) failed_response
        initial_world) = testStatus initial_world"
proof -
  have b: "has_btnTestRun sample_page" "has_btnTestRun (sample_page\<lparr>has_testStatus := False\<rparr>)"
    by (simp_all add: sample_page_def)
  have 1: "\<not> containsText (ascii ''auth failed'')
      (last (logLines (runTest frames_engine sample_page failed_response initial_world)))"
    unfolding failed_response_frames_log by (simp add: ascii_def)
  have 2: "\<not> containsText (ascii ''rotate token'')
      (last (logLines (runTest frames_engine sample_page failed_response initial_world)))"
    unfolding failed_response_frames_log by (simp add: ascii_def)
  show ?thesis
    by (intro conjI b failed_response_frames_log 1 2 failed_response_no_status_line)
qed

section \<open>No \<^verbatim>\<open>Date\<close> reaches a cell\<close>





















end
